theory Spec2Isabelle
  imports Main "HOL-Library.Word" "HOL-Library.Signed_Division"
begin

section \<open>The sunxi gpiomem character device (drivers/char/gpiomem.c)\<close>

text \<open>
  The driver keeps one instance: a table of up to 32 physical register windows and the
  number of windows in use. \<open>probe\<close> fills the table from the platform's resources,
  \<open>open\<close> and \<open>release\<close> check the minor number, and \<open>mmap\<close> scans the table before it
  hands the caller's range to \<open>remap_pfn_range\<close>.

  \<open>unsigned long\<close> is the machine word: \<open>'w word\<close> for a word length \<open>'w\<close>, so that
  every statement holds for the 32-bit and the 64-bit kernel alike. C \<open>int\<close> values
  (return codes, counts, loop indices) stay far from their bounds and are \<open>int\<close>.
\<close>

subsection \<open>Constants of the kernel headers\<close>

text \<open>
  The error numbers come from the kernel's \<open>errno-base.h\<close>, which is not part of the
  driver's file; the values are those of every Linux architecture.
\<close>

definition ENOENT :: int where "ENOENT = 2"
definition ENXIO :: int where "ENXIO = 6"
definition EAGAIN :: int where "EAGAIN = 11"
definition ENOMEM :: int where "ENOMEM = 12"
definition EACCES :: int where "EACCES = 13"
definition EINVAL :: int where "EINVAL = 22"

definition DEVICE_MINOR :: int where "DEVICE_MINOR = 0"

subsection \<open>Data\<close>

text \<open>
  \<open>struct regs_phys\<close>. The field \<open>end\<close> is written \<open>end_addr\<close>, since \<open>end\<close> is a
  keyword here.
\<close>

record (overloaded) 'w regs_phys =
  start :: "'w word"
  end_addr :: "'w word"

text \<open>A \<open>struct device *\<close> is an opaque handle.\<close>

type_synonym device = nat

text \<open>
  \<open>struct sunxi_gpiomem_instance\<close>. The array \<open>gpio_regs_phys[32]\<close> is a list; an
  instance laid out as the struct is has exactly 32 entries.
\<close>

record (overloaded) 'w sunxi_gpiomem_instance =
  gpio_regs_phys :: "'w regs_phys list"
  gpio_area_count :: int
  dev :: device

definition instance_ok :: "'w sunxi_gpiomem_instance \<Rightarrow> bool" where
  "instance_ok inst \<longleftrightarrow>
     length (gpio_regs_phys inst) = 32 \<and> gpio_area_count inst \<le> 32"

text \<open>
  The fields of \<open>struct vm_area_struct\<close> that the driver reads or writes. A page
  protection value and a \<open>struct file *\<close> are opaque; \<open>vm_ops\<close> points either at the
  driver's own operations table or at whatever the caller had there.
\<close>

type_synonym pgprot = nat
type_synonym struct_file = nat

datatype vm_ops_ref = Caller_vm_ops nat | Sunxi_gpiomem_vm_ops

record (overloaded) 'w vm_area_struct =
  vm_start :: "'w word"
  vm_end :: "'w word"
  vm_pgoff :: "'w word"
  vm_page_prot :: pgprot
  vm_ops :: vm_ops_ref

text \<open>
  What the driver takes from the rest of the kernel when it maps: the page shift and
  the two primitives it calls. \<open>remap_pfn_range\<close> is seen by its return value only (0 or
  an error); the arguments it was called with are kept in the result of \<open>mmap\<close>.
\<close>

record (overloaded) 'w platform =
  PAGE_SHIFT :: nat
  phys_mem_access_prot :: "struct_file \<Rightarrow> 'w word \<Rightarrow> 'w word \<Rightarrow> pgprot \<Rightarrow> pgprot"
  remap_pfn_range ::
    "'w vm_area_struct \<Rightarrow> 'w word \<Rightarrow> 'w word \<Rightarrow> 'w word \<Rightarrow> pgprot \<Rightarrow> int"

text \<open>The arguments of one call of \<open>remap_pfn_range\<close> after the descriptor itself.\<close>

record (overloaded) 'w remap_args =
  remap_addr :: "'w word"
  remap_pfn :: "'w word"
  remap_size :: "'w word"
  remap_prot :: pgprot

text \<open>
  The outcome of \<open>mmap\<close>: the return value, the caller's descriptor as the driver leaves
  it, and the call forwarded to the mapping primitive, if any.
\<close>

record (overloaded) 'w mmap_result =
  mmap_ret :: int
  mmap_vma :: "'w vm_area_struct"
  mmap_forwarded :: "'w remap_args option"

subsection \<open>mmap\<close>

text \<open>The two locals \<open>start\<close> and \<open>end\<close> of \<open>sunxi_gpiomem_mmap\<close>.\<close>

definition mmap_start :: "('w::len) platform \<Rightarrow> 'w vm_area_struct \<Rightarrow> 'w word" where
  "mmap_start pf vma = push_bit (PAGE_SHIFT pf) (vm_pgoff vma)"

definition mmap_end :: "('w::len) platform \<Rightarrow> 'w vm_area_struct \<Rightarrow> 'w word" where
  "mmap_end pf vma = mmap_start pf vma + vm_end vma - vm_start vma"

text \<open>The test of the \<open>while\<close> loop on one table entry.\<close>

definition area_matches :: "('w::len) regs_phys \<Rightarrow> 'w word \<Rightarrow> 'w word \<Rightarrow> bool" where
  "area_matches r req_start req_end \<longleftrightarrow> start r \<ge> req_start \<and> end_addr r \<le> req_end"

text \<open>
  The \<open>while\<close> loop, from the index \<open>gpio_area\<close> on: \<open>Some\<close> of the index at which it
  jumps to \<open>found\<close>, \<open>None\<close> when it falls through.
\<close>

function gpio_area_scan ::
  "('w::len) sunxi_gpiomem_instance \<Rightarrow> 'w word \<Rightarrow> 'w word \<Rightarrow> int \<Rightarrow> int option" where
  "gpio_area_scan inst req_start req_end gpio_area =
     (if gpio_area < gpio_area_count inst then
        (if area_matches (gpio_regs_phys inst ! nat gpio_area) req_start req_end
         then Some gpio_area
         else gpio_area_scan inst req_start req_end (gpio_area + 1))
      else None)"
  by pat_completeness auto
termination
  by (relation "measure (\<lambda>(inst, s, e, a). nat (gpio_area_count inst - a))") auto

declare gpio_area_scan.simps [simp del]

text \<open>
  \<open>sunxi_gpiomem_mmap\<close>. The instance is the one the global \<open>inst\<close> points to; it is
  returned with the result, as the function leaves it.
\<close>

definition sunxi_gpiomem_mmap ::
  "('w::len) platform \<Rightarrow> 'w sunxi_gpiomem_instance \<Rightarrow> struct_file \<Rightarrow> 'w vm_area_struct
     \<Rightarrow> 'w mmap_result \<times> 'w sunxi_gpiomem_instance" where
  "sunxi_gpiomem_mmap pf inst filp vma =
     (case gpio_area_scan inst (mmap_start pf vma) (mmap_end pf vma) 0 of
        None \<Rightarrow>
          (\<lparr>mmap_ret = - EACCES, mmap_vma = vma, mmap_forwarded = None\<rparr>, inst)
      | Some gpio_area \<Rightarrow>
          (let vma1 = vma\<lparr>vm_page_prot :=
                 phys_mem_access_prot pf filp (vm_pgoff vma)
                   (vm_end vma - vm_start vma) (vm_page_prot vma)\<rparr>;
               vma2 = vma1\<lparr>vm_ops := Sunxi_gpiomem_vm_ops\<rparr>;
               args = \<lparr>remap_addr = vm_start vma2, remap_pfn = vm_pgoff vma2,
                       remap_size = vm_end vma2 - vm_start vma2,
                       remap_prot = vm_page_prot vma2\<rparr>
           in if remap_pfn_range pf vma2 (remap_addr args) (remap_pfn args)
                   (remap_size args) (remap_prot args) \<noteq> 0
              then (\<lparr>mmap_ret = - EAGAIN, mmap_vma = vma2, mmap_forwarded = Some args\<rparr>, inst)
              else (\<lparr>mmap_ret = 0, mmap_vma = vma2, mmap_forwarded = Some args\<rparr>, inst)))"

text \<open>
  The part of the table that is in use: the first \<open>gpio_area_count\<close> entries, in
  storage order.
\<close>

definition region_table :: "('w::len) sunxi_gpiomem_instance \<Rightarrow> 'w regs_phys list" where
  "region_table inst = take (nat (gpio_area_count inst)) (gpio_regs_phys inst)"

text \<open>
  The admission rule in the words of the specification, for comparison with the loop:
  some region \<open>r\<close> of the table has \<open>r.start <= req_start\<close> and \<open>req_end <= r.end\<close>.
\<close>

definition spec_admits :: "('w::len) regs_phys list \<Rightarrow> 'w word \<Rightarrow> 'w word \<Rightarrow> bool" where
  "spec_admits T req_start req_end =
     list_ex (\<lambda>r. start r \<le> req_start \<and> req_end \<le> end_addr r) T"


text \<open>
  A sequence of \<open>mmap\<close> calls, one after the other, each on the instance the previous
  one left.
\<close>

fun mmap_calls ::
  "('w::len) platform \<Rightarrow> 'w sunxi_gpiomem_instance \<Rightarrow> (struct_file \<times> 'w vm_area_struct) list
     \<Rightarrow> 'w mmap_result list \<times> 'w sunxi_gpiomem_instance" where
  "mmap_calls pf inst [] = ([], inst)"
| "mmap_calls pf inst ((filp, vma) # reqs) =
     (let (res, inst1) = sunxi_gpiomem_mmap pf inst filp vma;
          (ress, inst2) = mmap_calls pf inst1 reqs
      in (res # ress, inst2))"

subsection \<open>open and release\<close>

text \<open>
  What the driver does to the outside, in the order it does it: log lines (device,
  format string, integer arguments) and the kernel calls of \<open>probe\<close>. \<open>Dev_err_freed\<close> is
  a \<open>dev_err\<close> whose device argument was read from the instance after \<open>kfree\<close>.
\<close>

datatype event =
    Dev_info device string "int list"
  | Dev_err device string "int list"
  | Dev_err_freed string
  | Kfree
  | Alloc_chrdev_region
  | Cdev_init
  | Cdev_add
  | Class_create
  | Device_create
  | Class_destroy
  | Cdev_del
  | Unregister_chrdev_region

text \<open>
  An inode is seen through \<open>iminor\<close>, an \<open>unsigned\<close>; the driver stores it in an \<open>int\<close>.
\<close>

record inode =
  iminor :: "32 word"

record call_result =
  call_ret :: int
  call_log :: "event list"

definition sunxi_gpiomem_open ::
  "('w::len) sunxi_gpiomem_instance \<Rightarrow> inode \<Rightarrow> struct_file
     \<Rightarrow> call_result \<times> 'w sunxi_gpiomem_instance" where
  "sunxi_gpiomem_open inst ino filp =
     (let minor = sint (iminor ino);
          opened = [Dev_info (dev inst) ''gpiomem device opened.'' []]
      in if minor \<noteq> DEVICE_MINOR
         then (\<lparr>call_ret = - ENXIO,
                 call_log = opened @ [Dev_err (dev inst) ''Unknown minor device: %d'' [minor]]\<rparr>,
               inst)
         else (\<lparr>call_ret = 0, call_log = opened\<rparr>, inst))"

definition sunxi_gpiomem_release ::
  "('w::len) sunxi_gpiomem_instance \<Rightarrow> inode \<Rightarrow> struct_file
     \<Rightarrow> call_result \<times> 'w sunxi_gpiomem_instance" where
  "sunxi_gpiomem_release inst ino filp =
     (let minor = sint (iminor ino)
      in if minor \<noteq> DEVICE_MINOR
         then (\<lparr>call_ret = - ENXIO,
                 call_log = [Dev_err (dev inst) ''Unknown minor device %d'' [minor]]\<rparr>,
               inst)
         else (\<lparr>call_ret = 0, call_log = []\<rparr>, inst))"

subsection \<open>probe\<close>

text \<open>
  \<open>struct resource\<close>: \<open>start\<close> and \<open>end\<close> are of type \<open>resource_size_t\<close>, whose width
  \<open>'r\<close> need not be that of \<open>unsigned long\<close>; the assignment into the table converts.
\<close>

record (overloaded) 'r resource =
  res_start :: "'r word"
  res_end :: "'r word"

text \<open>
  What the kernel answers to the calls of \<open>probe\<close>: whether \<open>kzalloc\<close> returns memory, the
  device of the platform device, the element count of the \<open>reg\<close> property, the memory
  resource at each index (\<open>None\<close> for \<open>NULL\<close>), the return values of
  \<open>alloc_chrdev_region\<close> and \<open>cdev_add\<close>, and whether \<open>class_create\<close> and \<open>device_create\<close>
  return an error pointer.
\<close>

record (overloaded) 'r probe_env =
  kzalloc_ok :: bool
  pdev_dev :: device
  of_property_count_elems_of_size :: int
  platform_get_resource :: "nat \<Rightarrow> 'r resource option"
  alloc_chrdev_region :: int
  cdev_add :: int
  class_create_IS_ERR :: bool
  device_create_IS_ERR :: bool

text \<open>
  The global pointer \<open>inst\<close>: \<open>NULL\<close>, a live instance, or a pointer to freed memory.
  The type \<open>'i\<close> of the object pointed to is always a \<open>sunxi_gpiomem_instance\<close>.
\<close>

datatype 'i inst_ptr = Null | Live 'i | Freed

text \<open>
  \<open>probe\<close> either returns, with \<open>inst\<close> and the events so far, or it dereferences
  \<open>NULL\<close>, which traps: the function does not return. A read through a pointer to freed
  memory does not trap (the slab page stays mapped): it is recorded as an event
  and the function goes on.
\<close>

datatype 'i probe_outcome =
    Probe_return int "'i inst_ptr" "event list"
  | Probe_oops "event list"

definition probe_events :: "'i probe_outcome \<Rightarrow> event list" where
  "probe_events out = (case out of Probe_return err p tr \<Rightarrow> tr | Probe_oops tr \<Rightarrow> tr)"

text \<open>The labels of the unwinding chain, last label first.\<close>

definition failed_inst_alloc ::
  "('w::len) sunxi_gpiomem_instance inst_ptr \<Rightarrow> int \<Rightarrow> event list
     \<Rightarrow> 'w sunxi_gpiomem_instance probe_outcome" where
  "failed_inst_alloc p err tr =
     (case p of
        Null \<Rightarrow> Probe_oops tr
      | Live inst \<Rightarrow>
          Probe_return err p (tr @ [Dev_err (dev inst) ''could not load sunxi_gpiomem'' []])
      | Freed \<Rightarrow>
          Probe_return err p (tr @ [Dev_err_freed ''could not load sunxi_gpiomem'']))"

definition failed_get_resource ::
  "('w::len) sunxi_gpiomem_instance inst_ptr \<Rightarrow> int \<Rightarrow> event list
     \<Rightarrow> 'w sunxi_gpiomem_instance probe_outcome" where
  "failed_get_resource p err tr =
     failed_inst_alloc (case p of Null \<Rightarrow> Null | _ \<Rightarrow> Freed) err (tr @ [Kfree])"

definition failed_alloc_chrdev ::
  "('w::len) sunxi_gpiomem_instance inst_ptr \<Rightarrow> int \<Rightarrow> event list
     \<Rightarrow> 'w sunxi_gpiomem_instance probe_outcome" where
  "failed_alloc_chrdev p err tr = failed_get_resource p err tr"

definition failed_cdev_add ::
  "('w::len) sunxi_gpiomem_instance inst_ptr \<Rightarrow> int \<Rightarrow> event list
     \<Rightarrow> 'w sunxi_gpiomem_instance probe_outcome" where
  "failed_cdev_add p err tr = failed_alloc_chrdev p err (tr @ [Unregister_chrdev_region])"

definition failed_class_create ::
  "('w::len) sunxi_gpiomem_instance inst_ptr \<Rightarrow> int \<Rightarrow> event list
     \<Rightarrow> 'w sunxi_gpiomem_instance probe_outcome" where
  "failed_class_create p err tr = failed_cdev_add p err (tr @ [Cdev_del])"

definition failed_device_create ::
  "('w::len) sunxi_gpiomem_instance inst_ptr \<Rightarrow> int \<Rightarrow> event list
     \<Rightarrow> 'w sunxi_gpiomem_instance probe_outcome" where
  "failed_device_create p err tr = failed_class_create p err (tr @ [Class_destroy])"

text \<open>
  The first \<open>for\<close> loop, from index \<open>i\<close> on: \<open>Inr\<close> of the instance with the table
  filled, or \<open>Inl\<close> of the index whose resource is \<open>NULL\<close>.
\<close>

function fill_gpio_regs ::
  "('r::len) probe_env \<Rightarrow> ('w::len) sunxi_gpiomem_instance \<Rightarrow> int
     \<Rightarrow> int + 'w sunxi_gpiomem_instance" where
  "fill_gpio_regs env inst i =
     (if i < gpio_area_count inst then
        (case platform_get_resource env (nat i) of
           Some res \<Rightarrow>
             fill_gpio_regs env
               (inst\<lparr>gpio_regs_phys := (gpio_regs_phys inst)
                  [nat i := \<lparr>start = ucast (res_start res), end_addr = ucast (res_end res)\<rparr>]\<rparr>)
               (i + 1)
         | None \<Rightarrow> Inl i)
      else Inr inst)"
  by pat_completeness auto
termination
  by (relation "measure (\<lambda>(env, inst, i). nat (gpio_area_count inst - i))") auto

declare fill_gpio_regs.simps [simp del]

text \<open>The last \<open>for\<close> loop: one log line for each region in use.\<close>

definition registers_log :: "('w::len) sunxi_gpiomem_instance \<Rightarrow> event list" where
  "registers_log inst =
     map (\<lambda>r. Dev_info (dev inst)
            ''Initialised: Registers at start:0x%08lx end:0x%08lx size:0x%08lx''
            [uint (start r), uint (end_addr r), uint (end_addr r - start r)])
         (region_table inst)"

text \<open>The instance as \<open>kzalloc\<close> returns it: all fields zero.\<close>

definition zeroed_instance :: "('w::len) sunxi_gpiomem_instance" where
  "zeroed_instance =
     \<lparr>gpio_regs_phys = replicate 32 \<lparr>start = 0, end_addr = 0\<rparr>,
      gpio_area_count = 0, dev = 0\<rparr>"

text \<open>
  \<open>sunxi_gpiomem_probe\<close>. The division of the element count is C's, which truncates
  towards zero (\<open>sdiv\<close>).
\<close>

definition sunxi_gpiomem_probe ::
  "('r::len) probe_env \<Rightarrow> ('w::len) sunxi_gpiomem_instance probe_outcome" where
  "sunxi_gpiomem_probe env =
     (if \<not> kzalloc_ok env then failed_inst_alloc Null (- ENOMEM) []
      else
        let inst0 = zeroed_instance\<lparr>dev := pdev_dev env\<rparr>;
            inst1 = inst0\<lparr>gpio_area_count := of_property_count_elems_of_size env sdiv 4\<rparr>
        in if gpio_area_count inst1 > 32 \<or> gpio_area_count inst1 \<le> 0 then
             failed_inst_alloc (Live inst1) (- EINVAL)
               [Dev_err (dev inst1) ''failed to get gpio register area.'' []]
           else
             let tr1 = [Dev_info (dev inst1) ''Initialised: GPIO register area is %d''
                          [gpio_area_count inst1]]
             in case fill_gpio_regs env inst1 0 of
                  Inl i \<Rightarrow>
                    failed_get_resource (Live inst1) (- ENOENT)
                      (tr1 @ [Dev_err (dev inst1) ''failed to get IO resource area %d'' [i]])
                | Inr inst2 \<Rightarrow>
                    if alloc_chrdev_region env \<noteq> 0 then
                      failed_alloc_chrdev (Live inst2) (alloc_chrdev_region env)
                        (tr1 @ [Alloc_chrdev_region,
                                Dev_err (dev inst2) ''unable to allocate device number'' []])
                    else if cdev_add env \<noteq> 0 then
                      failed_cdev_add (Live inst2) (cdev_add env)
                        (tr1 @ [Alloc_chrdev_region, Cdev_init, Cdev_add,
                                Dev_err (dev inst2) ''unable to register device'' []])
                    else if class_create_IS_ERR env then
                      failed_class_create (Live inst2) 1
                        (tr1 @ [Alloc_chrdev_region, Cdev_init, Cdev_add, Class_create])
                    else if device_create_IS_ERR env then
                      failed_device_create (Live inst2) 1
                        (tr1 @ [Alloc_chrdev_region, Cdev_init, Cdev_add, Class_create,
                                Device_create])
                    else
                      Probe_return 0 (Live inst2)
                        (tr1 @ [Alloc_chrdev_region, Cdev_init, Cdev_add, Class_create,
                                Device_create] @ registers_log inst2))"

subsection \<open>Classification of events\<close>

definition is_log_event :: "event \<Rightarrow> bool" where
  "is_log_event e =
     (case e of Dev_info d m a \<Rightarrow> True | Dev_err d m a \<Rightarrow> True | _ \<Rightarrow> False)"

subsection \<open>Concrete boards and requests\<close>

text \<open>
  The scenario of the specification: a 32-bit kernel with 4 KiB pages whose table holds
  the one region \<open>[0x01C20800, 0x01C20900)\<close>.
\<close>

definition scenario_instance :: "32 sunxi_gpiomem_instance" where
  "scenario_instance =
     \<lparr>gpio_regs_phys = \<lparr>start = 0x01C20800, end_addr = 0x01C20900\<rparr>
                         # replicate 31 \<lparr>start = 0, end_addr = 0\<rparr>,
      gpio_area_count = 1, dev = 7\<rparr>"

text \<open>A table whose one region spans two pages.\<close>

definition two_page_instance :: "32 sunxi_gpiomem_instance" where
  "two_page_instance =
     \<lparr>gpio_regs_phys = \<lparr>start = 0x01C20000, end_addr = 0x01C22000\<rparr>
                         # replicate 31 \<lparr>start = 0, end_addr = 0\<rparr>,
      gpio_area_count = 1, dev = 7\<rparr>"

text \<open>A table with two regions that overlap.\<close>

definition overlap_instance :: "32 sunxi_gpiomem_instance" where
  "overlap_instance =
     \<lparr>gpio_regs_phys = \<lparr>start = 0x01C20800, end_addr = 0x01C20900\<rparr>
                         # \<lparr>start = 0x01C20400, end_addr = 0x01C20A00\<rparr>
                         # replicate 30 \<lparr>start = 0, end_addr = 0\<rparr>,
      gpio_area_count = 2, dev = 7\<rparr>"

text \<open>A table of two regions, the second of which holds the scenario's region.\<close>

definition second_match_instance :: "32 sunxi_gpiomem_instance" where
  "second_match_instance =
     \<lparr>gpio_regs_phys = \<lparr>start = 0x01F02C00, end_addr = 0x01F03000\<rparr>
                         # \<lparr>start = 0x01C20800, end_addr = 0x01C20900\<rparr>
                         # replicate 30 \<lparr>start = 0, end_addr = 0\<rparr>,
      gpio_area_count = 2, dev = 7\<rparr>"

text \<open>A kernel whose \<open>remap_pfn_range\<close> succeeds, and one where it fails.\<close>

definition scenario_platform :: "32 platform" where
  "scenario_platform =
     \<lparr>PAGE_SHIFT = 12,
      phys_mem_access_prot = (\<lambda>filp pfn sz prot. prot + 64),
      remap_pfn_range = (\<lambda>vma addr pfn sz prot. 0)\<rparr>"

definition exhausted_platform :: "32 platform" where
  "exhausted_platform =
     \<lparr>PAGE_SHIFT = 12,
      phys_mem_access_prot = (\<lambda>filp pfn sz prot. prot + 64),
      remap_pfn_range = (\<lambda>vma addr pfn sz prot. - 12)\<rparr>"

text \<open>
  A request for the page \<open>[0x01C20000, 0x01C21000)\<close>, which holds the scenario's
  region, and one for the page \<open>[0x01C30000, 0x01C31000)\<close>, which holds none.
\<close>

definition page_vma :: "32 vm_area_struct" where
  "page_vma =
     \<lparr>vm_start = 0x40000000, vm_end = 0x40001000, vm_pgoff = 0x01C20,
      vm_page_prot = 3, vm_ops = Caller_vm_ops 0\<rparr>"

definition other_vma :: "32 vm_area_struct" where
  "other_vma =
     \<lparr>vm_start = 0x40000000, vm_end = 0x40001000, vm_pgoff = 0x01C30,
      vm_page_prot = 3, vm_ops = Caller_vm_ops 0\<rparr>"

text \<open>
  Another caller's request for the page \<open>[0x01C20000, 0x01C21000)\<close>: the same physical
  range as \<open>page_vma\<close>, at another virtual address and with other protection bits.
\<close>

definition moved_page_vma :: "32 vm_area_struct" where
  "moved_page_vma =
     \<lparr>vm_start = 0x50000000, vm_end = 0x50001000, vm_pgoff = 0x01C20,
      vm_page_prot = 5, vm_ops = Caller_vm_ops 9\<rparr>"

text \<open>A request for the 32 MiB of physical addresses from 0 on.\<close>

definition low_memory_vma :: "32 vm_area_struct" where
  "low_memory_vma =
     \<lparr>vm_start = 0x40000000, vm_end = 0x42000000, vm_pgoff = 0,
      vm_page_prot = 3, vm_ops = Caller_vm_ops 0\<rparr>"

text \<open>
  A board whose \<open>reg\<close> property has 8 cells (two regions) and that resolves the
  indices 0 and 1, and a board with 128 cells that resolves every index.
\<close>

definition board_env :: "32 probe_env" where
  "board_env =
     \<lparr>kzalloc_ok = True, pdev_dev = 7, of_property_count_elems_of_size = 8,
      platform_get_resource =
        (\<lambda>i. if i = 0 then Some \<lparr>res_start = 0x01C20800, res_end = 0x01C20BFF\<rparr>
             else if i = 1 then Some \<lparr>res_start = 0x01F02C00, res_end = 0x01F02FFF\<rparr>
             else None),
      alloc_chrdev_region = 0, cdev_add = 0,
      class_create_IS_ERR = False, device_create_IS_ERR = False\<rparr>"

definition full_board_env :: "32 probe_env" where
  "full_board_env =
     \<lparr>kzalloc_ok = True, pdev_dev = 7, of_property_count_elems_of_size = 128,
      platform_get_resource =
        (\<lambda>i. Some \<lparr>res_start = 0x01C20000 + 0x400 * of_nat i,
                    res_end = 0x01C203FF + 0x400 * of_nat i\<rparr>),
      alloc_chrdev_region = 0, cdev_add = 0,
      class_create_IS_ERR = False, device_create_IS_ERR = False\<rparr>"


section \<open>The table scan\<close>

lemma gpio_area_scan_None:
  "gpio_area_scan inst s e a = None \<longleftrightarrow>
     (\<forall>i. a \<le> i \<and> i < gpio_area_count inst \<longrightarrow>
          \<not> area_matches (gpio_regs_phys inst ! nat i) s e)"
proof (induction inst s e a rule: gpio_area_scan.induct)
  case (1 inst s e a)
  show ?case
  proof (cases "a < gpio_area_count inst")
    case False
    then show ?thesis by (auto simp: gpio_area_scan.simps [of inst s e a])
  next
    case True
    show ?thesis
    proof (cases "area_matches (gpio_regs_phys inst ! nat a) s e")
      case hit: True
      with True show ?thesis
        by (auto simp: gpio_area_scan.simps [of inst s e a])
    next
      case miss: False
      have "(\<forall>i. a \<le> i \<and> i < gpio_area_count inst \<longrightarrow>
                \<not> area_matches (gpio_regs_phys inst ! nat i) s e) \<longleftrightarrow>
            (\<forall>i. a + 1 \<le> i \<and> i < gpio_area_count inst \<longrightarrow>
                \<not> area_matches (gpio_regs_phys inst ! nat i) s e)"
        using miss by (metis add1_zle_eq order_le_less)
      with True miss "1.IH" show ?thesis
        by (simp add: gpio_area_scan.simps [of inst s e a])
    qed
  qed
qed

lemma gpio_area_scan_Some:
  "gpio_area_scan inst s e a = Some i \<Longrightarrow>
     a \<le> i \<and> i < gpio_area_count inst \<and>
     area_matches (gpio_regs_phys inst ! nat i) s e \<and>
     (\<forall>j. a \<le> j \<and> j < i \<longrightarrow> \<not> area_matches (gpio_regs_phys inst ! nat j) s e)"
proof (induction inst s e a rule: gpio_area_scan.induct)
  case (1 inst s e a)
  show ?case
  proof (cases "a < gpio_area_count inst \<and> \<not> area_matches (gpio_regs_phys inst ! nat a) s e")
    case False
    with "1.prems" show ?thesis
      by (auto simp: gpio_area_scan.simps [of inst s e a] split: if_splits)
  next
    case True
    with "1.prems" have "gpio_area_scan inst s e (a + 1) = Some i"
      by (simp add: gpio_area_scan.simps [of inst s e a])
    with True "1.IH" have later:
      "a + 1 \<le> i \<and> i < gpio_area_count inst \<and>
       area_matches (gpio_regs_phys inst ! nat i) s e \<and>
       (\<forall>j. a + 1 \<le> j \<and> j < i \<longrightarrow> \<not> area_matches (gpio_regs_phys inst ! nat j) s e)"
      by simp
    have "\<not> area_matches (gpio_regs_phys inst ! nat j) s e" if "a \<le> j" "j < i" for j
    proof (cases "j = a")
      case True
      with \<open>a < gpio_area_count inst \<and> \<not> area_matches (gpio_regs_phys inst ! nat a) s e\<close>
      show ?thesis by simp
    next
      case False
      with that later show ?thesis by simp
    qed
    with later show ?thesis by simp
  qed
qed

text \<open>The loop stops at the first entry that passes the test, and only there.\<close>

lemma gpio_area_scan_Some_iff:
  "gpio_area_scan inst s e a = Some i \<longleftrightarrow>
     a \<le> i \<and> i < gpio_area_count inst \<and>
     area_matches (gpio_regs_phys inst ! nat i) s e \<and>
     (\<forall>j. a \<le> j \<and> j < i \<longrightarrow> \<not> area_matches (gpio_regs_phys inst ! nat j) s e)"
proof
  assume "gpio_area_scan inst s e a = Some i"
  then show "a \<le> i \<and> i < gpio_area_count inst \<and>
     area_matches (gpio_regs_phys inst ! nat i) s e \<and>
     (\<forall>j. a \<le> j \<and> j < i \<longrightarrow> \<not> area_matches (gpio_regs_phys inst ! nat j) s e)"
    by (rule gpio_area_scan_Some)
next
  assume least: "a \<le> i \<and> i < gpio_area_count inst \<and>
     area_matches (gpio_regs_phys inst ! nat i) s e \<and>
     (\<forall>j. a \<le> j \<and> j < i \<longrightarrow> \<not> area_matches (gpio_regs_phys inst ! nat j) s e)"
  then have "gpio_area_scan inst s e a \<noteq> None"
    unfolding gpio_area_scan_None by blast
  then obtain k where k: "gpio_area_scan inst s e a = Some k" by blast
  from gpio_area_scan_Some [OF k]
  have found: "a \<le> k" "k < gpio_area_count inst"
    "area_matches (gpio_regs_phys inst ! nat k) s e"
    "\<forall>j. a \<le> j \<and> j < k \<longrightarrow> \<not> area_matches (gpio_regs_phys inst ! nat j) s e"
    by simp_all
  have "\<not> i < k" using found(4) least by blast
  moreover have "\<not> k < i" using found(1,3) least by blast
  ultimately have "k = i" by simp
  with k show "gpio_area_scan inst s e a = Some i" by simp
qed

lemma region_table_set:
  assumes "instance_ok inst"
  shows "set (region_table inst) =
           {gpio_regs_phys inst ! nat i | i. 0 \<le> i \<and> i < gpio_area_count inst}"
proof (intro set_eqI iffI)
  fix r assume "r \<in> set (region_table inst)"
  then obtain k where "k < length (region_table inst)" "r = region_table inst ! k"
    by (auto simp: in_set_conv_nth)
  then have "0 \<le> int k \<and> int k < gpio_area_count inst \<and>
             r = gpio_regs_phys inst ! nat (int k)"
    by (auto simp: region_table_def)
  then show "r \<in> {gpio_regs_phys inst ! nat i | i. 0 \<le> i \<and> i < gpio_area_count inst}"
    by blast
next
  fix r assume "r \<in> {gpio_regs_phys inst ! nat i | i. 0 \<le> i \<and> i < gpio_area_count inst}"
  then obtain i where i: "0 \<le> i" "i < gpio_area_count inst" "r = gpio_regs_phys inst ! nat i"
    by blast
  with assms have "nat i < length (region_table inst)"
    by (auto simp: region_table_def instance_ok_def)
  moreover from i have "region_table inst ! nat i = r"
    by (simp add: region_table_def)
  ultimately show "r \<in> set (region_table inst)"
    by (metis nth_mem)
qed

lemma gpio_area_scan_None_table:
  assumes "instance_ok inst"
  shows "gpio_area_scan inst s e 0 = None \<longleftrightarrow>
           (\<forall>r \<in> set (region_table inst). \<not> area_matches r s e)"
  unfolding gpio_area_scan_None region_table_set [OF assms] by blast

section \<open>mmap\<close>

lemma mmap_ret_EACCES_iff:
  "mmap_ret (fst (sunxi_gpiomem_mmap pf inst filp vma)) = - EACCES \<longleftrightarrow>
     gpio_area_scan inst (mmap_start pf vma) (mmap_end pf vma) 0 = None"
  by (simp add: sunxi_gpiomem_mmap_def Let_def EACCES_def EAGAIN_def split: option.splits)

lemma mmap_keeps_instance: "snd (sunxi_gpiomem_mmap pf inst filp vma) = inst"
  by (simp add: sunxi_gpiomem_mmap_def Let_def split: option.splits)

lemma mmap_calls_keep_instance: "snd (mmap_calls pf inst reqs) = inst"
proof (induction reqs arbitrary: inst)
  case Nil
  show ?case by simp
next
  case (Cons q reqs)
  obtain filp vma where q: "q = (filp, vma)" by (cases q)
  have "snd (sunxi_gpiomem_mmap pf inst filp vma) = inst" by (rule mmap_keeps_instance)
  with Cons.IH [of inst] show ?case
    by (simp add: q split: prod.splits) (metis snd_conv)
qed

subsection \<open>The concrete requests, evaluated\<close>

lemma scenario_instance_ok: "instance_ok scenario_instance"
  by (simp add: instance_ok_def scenario_instance_def)

lemma scenario_region_table:
  "region_table scenario_instance = [\<lparr>start = 0x01C20800, end_addr = 0x01C20900\<rparr>]"
  by (simp add: region_table_def scenario_instance_def)

lemma overlap_instance_ok: "instance_ok overlap_instance"
  by (simp add: instance_ok_def overlap_instance_def)

lemma second_match_instance_ok: "instance_ok second_match_instance"
  by (simp add: instance_ok_def second_match_instance_def)

lemma second_match_entries:
  "\<not> area_matches (gpio_regs_phys second_match_instance ! 0) 0x01C20000 0x01C21000"
  "area_matches (gpio_regs_phys second_match_instance ! Suc 0) 0x01C20000 0x01C21000"
  "gpio_area_count second_match_instance = 2"
  by (simp_all add: area_matches_def second_match_instance_def)

lemma overlap_entries:
  "area_matches (gpio_regs_phys overlap_instance ! 0) 0x01C20000 0x01C21000"
  "gpio_area_count overlap_instance = 2"
  by (simp_all add: area_matches_def overlap_instance_def)

lemma moved_page_vma_start: "mmap_start exhausted_platform moved_page_vma = 0x01C20000"
  by (simp add: mmap_start_def exhausted_platform_def moved_page_vma_def)

lemma moved_page_vma_end: "mmap_end exhausted_platform moved_page_vma = 0x01C21000"
  by (simp add: mmap_end_def mmap_start_def exhausted_platform_def moved_page_vma_def)

lemma page_vma_start: "mmap_start scenario_platform page_vma = 0x01C20000"
  by (simp add: mmap_start_def scenario_platform_def page_vma_def)

lemma page_vma_end: "mmap_end scenario_platform page_vma = 0x01C21000"
  by (simp add: mmap_end_def mmap_start_def scenario_platform_def page_vma_def)



lemma other_vma_start: "mmap_start scenario_platform other_vma = 0x01C30000"
  by (simp add: mmap_start_def scenario_platform_def other_vma_def)

lemma other_vma_end: "mmap_end scenario_platform other_vma = 0x01C31000"
  by (simp add: mmap_end_def mmap_start_def scenario_platform_def other_vma_def)

lemma scan_scenario_subrange:
  "gpio_area_scan scenario_instance 0x01C20800 0x01C20880 0 = None"
  by (simp add: gpio_area_scan.simps area_matches_def scenario_instance_def)

lemma scan_scenario_superrange:
  "gpio_area_scan scenario_instance 0x01C20700 0x01C20900 0 = Some 0"
  by (simp add: gpio_area_scan.simps area_matches_def scenario_instance_def)

lemma scan_scenario_page:
  "gpio_area_scan scenario_instance 0x01C20000 0x01C21000 0 = Some 0"
  by (simp add: gpio_area_scan.simps area_matches_def scenario_instance_def)

lemma scan_two_page:
  "gpio_area_scan two_page_instance 0x01C20000 0x01C21000 0 = None"
  by (simp add: gpio_area_scan.simps area_matches_def two_page_instance_def)

lemma scan_overlap_page:
  "gpio_area_scan overlap_instance 0x01C20000 0x01C21000 0 = Some 0"
  by (simp add: gpio_area_scan.simps area_matches_def overlap_instance_def)

lemma overlap_second_matches:
  "area_matches (gpio_regs_phys overlap_instance ! 1) 0x01C20000 0x01C21000"
  by (simp add: area_matches_def overlap_instance_def)

lemma mmap_scenario_page:
  "mmap_ret (fst (sunxi_gpiomem_mmap scenario_platform scenario_instance 0 page_vma)) = 0"
  by (simp add: sunxi_gpiomem_mmap_def page_vma_start page_vma_end scan_scenario_page Let_def,
      simp add: scenario_platform_def)

lemma mmap_two_page:
  "mmap_ret (fst (sunxi_gpiomem_mmap scenario_platform two_page_instance 0 page_vma)) = - EACCES"
  by (simp add: sunxi_gpiomem_mmap_def page_vma_start page_vma_end scan_two_page)


text \<open>
  The test of the loop puts no upper limit on the request: the 32 MiB from physical
  address 0 on lie around the scenario's region, and \<open>mmap\<close> forwards all of them.
\<close>

lemma scan_scenario_low_memory:
  "gpio_area_scan scenario_instance 0 0x02000000 0 = Some 0"
  by (simp add: gpio_area_scan.simps area_matches_def scenario_instance_def)

lemma mmap_scenario_low_memory:
  "fst (sunxi_gpiomem_mmap scenario_platform scenario_instance 0 low_memory_vma) =
     \<lparr>mmap_ret = 0,
      mmap_vma = low_memory_vma\<lparr>vm_page_prot := 67, vm_ops := Sunxi_gpiomem_vm_ops\<rparr>,
      mmap_forwarded = Some \<lparr>remap_addr = 0x40000000, remap_pfn = 0,
                              remap_size = 0x02000000, remap_prot = 67\<rparr>\<rparr>"
proof -
  have bounds: "mmap_start scenario_platform low_memory_vma = 0"
    "mmap_end scenario_platform low_memory_vma = 0x02000000"
    by (simp_all add: mmap_start_def mmap_end_def scenario_platform_def low_memory_vma_def)
  show ?thesis
    by (simp add: sunxi_gpiomem_mmap_def bounds scan_scenario_low_memory Let_def,
        simp add: scenario_platform_def low_memory_vma_def)
qed


subsection \<open>Admission\<close>

text \<open>
  What the scan admits, for every table and every pair of bounds: the requests inside
  which a region of the table lies. The test compares in the direction opposite to
  containment of the request, and it sets no upper limit on the request.
\<close>

lemma scan_admits_iff_area_inside_request:
  assumes "instance_ok inst"
  shows "(mmap_ret (fst (sunxi_gpiomem_mmap pf inst filp vma)) \<noteq> - EACCES \<longleftrightarrow>
            (\<exists>r \<in> set (region_table inst).
               mmap_start pf vma \<le> start r \<and> end_addr r \<le> mmap_end pf vma)) \<and>
         (gpio_area_scan inst req_start req_end 0 \<noteq> None \<longleftrightarrow>
            (\<exists>r \<in> set (region_table inst). req_start \<le> start r \<and> end_addr r \<le> req_end))"
  unfolding mmap_ret_EACCES_iff gpio_area_scan_None_table [OF assms] area_matches_def
  by blast

text \<open>
  C1 requires that a request is admitted exactly when it lies inside a region of the
  table. The driver, whose header promises access to the GPIO registers without relaxing
  the permissions on \<open>/dev/mem\<close>, breaks this in both directions. On the table
  \<open>[0x01C20800, 0x01C20900)\<close>:
  \<^item> the request for the 32 MiB of physical memory from address 0 on lies inside no
    region, and \<open>mmap\<close> returns 0 and forwards all \<open>0x02000000\<close> bytes from page 0 to
    \<open>remap_pfn_range\<close>;
  \<^item> the request for the page \<open>[0x01C20000, 0x01C21000)\<close> lies inside no region, and
    \<open>mmap\<close> returns 0;
  \<^item> the range \<open>[0x01C20800, 0x01C20880)\<close> lies inside the region, and the loop falls
    through; the range \<open>[0x01C20700, 0x01C20900)\<close> does not, and the loop jumps to
    \<open>found\<close> at index 0.
  On the table \<open>[0x01C20000, 0x01C22000)\<close> the request for the page
  \<open>[0x01C20000, 0x01C21000)\<close> lies inside the region, and \<open>mmap\<close> returns \<open>-EACCES\<close>.
\<close>

theorem mmap_containment_violated:
  "\<not> spec_admits (region_table scenario_instance)
       (mmap_start scenario_platform low_memory_vma)
       (mmap_end scenario_platform low_memory_vma) \<and>
   fst (sunxi_gpiomem_mmap scenario_platform scenario_instance 0 low_memory_vma) =
     \<lparr>mmap_ret = 0,
      mmap_vma = low_memory_vma\<lparr>vm_page_prot := 67, vm_ops := Sunxi_gpiomem_vm_ops\<rparr>,
      mmap_forwarded = Some \<lparr>remap_addr = 0x40000000, remap_pfn = 0,
                              remap_size = 0x02000000, remap_prot = 67\<rparr>\<rparr> \<and>
   \<not> spec_admits (region_table scenario_instance)
       (mmap_start scenario_platform page_vma) (mmap_end scenario_platform page_vma) \<and>
   mmap_ret (fst (sunxi_gpiomem_mmap scenario_platform scenario_instance 0 page_vma)) = 0 \<and>
   spec_admits (region_table two_page_instance)
     (mmap_start scenario_platform page_vma) (mmap_end scenario_platform page_vma) \<and>
   mmap_ret (fst (sunxi_gpiomem_mmap scenario_platform two_page_instance 0 page_vma))
     = - EACCES \<and>
   spec_admits (region_table scenario_instance) 0x01C20800 0x01C20880 \<and>
   gpio_area_scan scenario_instance 0x01C20800 0x01C20880 0 = None \<and>
   \<not> spec_admits (region_table scenario_instance) 0x01C20700 0x01C20900 \<and>
   gpio_area_scan scenario_instance 0x01C20700 0x01C20900 0 = Some 0"
proof -
  have "\<not> spec_admits (region_table scenario_instance)
       (mmap_start scenario_platform low_memory_vma)
       (mmap_end scenario_platform low_memory_vma)"
    by (simp add: spec_admits_def scenario_region_table mmap_start_def mmap_end_def
        scenario_platform_def low_memory_vma_def)
  moreover have "spec_admits (region_table scenario_instance) 0x01C20800 0x01C20880"
    by (simp add: spec_admits_def scenario_region_table)
  moreover have "\<not> spec_admits (region_table scenario_instance) 0x01C20700 0x01C20900"
    by (simp add: spec_admits_def scenario_region_table)
  moreover have "spec_admits (region_table two_page_instance)
     (mmap_start scenario_platform page_vma) (mmap_end scenario_platform page_vma)"
    by (simp add: page_vma_start page_vma_end spec_admits_def region_table_def
        two_page_instance_def)
  moreover have "\<not> spec_admits (region_table scenario_instance)
     (mmap_start scenario_platform page_vma) (mmap_end scenario_platform page_vma)"
    by (simp add: page_vma_start page_vma_end spec_admits_def scenario_region_table)
  ultimately show ?thesis
    using scan_scenario_subrange scan_scenario_superrange mmap_two_page mmap_scenario_page
      mmap_scenario_low_memory
    by blast
qed

text \<open>
  C2: whenever \<open>mmap\<close> gets past the scan, the call it forwards to \<open>remap_pfn_range\<close>
  carries the caller's page offset and the caller's length, \<open>vm_end - vm_start\<close>, at the
  caller's address: the physical range it maps starts at the requested start and ends
  at the requested end. No field of the table enters the call.
\<close>

theorem mmap_forwards_request_range:
  assumes "mmap_ret (fst (sunxi_gpiomem_mmap pf inst filp vma)) \<noteq> - EACCES"
  shows "mmap_forwarded (fst (sunxi_gpiomem_mmap pf inst filp vma)) =
           Some \<lparr>remap_addr = vm_start vma, remap_pfn = vm_pgoff vma,
                 remap_size = vm_end vma - vm_start vma,
                 remap_prot = phys_mem_access_prot pf filp (vm_pgoff vma)
                                (vm_end vma - vm_start vma) (vm_page_prot vma)\<rparr> \<and>
         push_bit (PAGE_SHIFT pf) (vm_pgoff vma) = mmap_start pf vma \<and>
         push_bit (PAGE_SHIFT pf) (vm_pgoff vma) + (vm_end vma - vm_start vma)
           = mmap_end pf vma"
  using assms
  by (auto simp: sunxi_gpiomem_mmap_def Let_def mmap_start_def mmap_end_def
      split: option.splits)

text \<open>
  C2 on the scenario: the page request is admitted through a region of 256 bytes, and
  the forwarded call is for the whole page \<open>0x01C20\<close>, \<open>0x1000\<close> bytes long.
\<close>

theorem mmap_forwards_request_range_witness:
  "mmap_ret (fst (sunxi_gpiomem_mmap scenario_platform scenario_instance 0 page_vma))
     \<noteq> - EACCES \<and>
   mmap_forwarded (fst (sunxi_gpiomem_mmap scenario_platform scenario_instance 0 page_vma)) =
     Some \<lparr>remap_addr = 0x40000000, remap_pfn = 0x01C20, remap_size = 0x1000,
           remap_prot = 67\<rparr>"
proof -
  have adm: "mmap_ret (fst (sunxi_gpiomem_mmap scenario_platform scenario_instance 0 page_vma))
      \<noteq> - EACCES"
    by (simp add: mmap_scenario_page EACCES_def)
  have "vm_pgoff page_vma = 0x01C20" "vm_end page_vma - vm_start page_vma = 0x1000"
    "vm_start page_vma = 0x40000000"
    "phys_mem_access_prot scenario_platform 0 (vm_pgoff page_vma)
       (vm_end page_vma - vm_start page_vma) (vm_page_prot page_vma) = 67"
    by (simp_all add: page_vma_def scenario_platform_def)
  with mmap_forwards_request_range [OF adm] adm show ?thesis by simp
qed


subsection \<open>Failure outcomes\<close>



subsection \<open>Determinism\<close>

text \<open>
  C8: \<open>mmap\<close> leaves the instance as it found it, so two requests for the same physical
  range get the same decision, whichever descriptors and callers they come from,
  whatever sequence of other \<open>mmap\<close> calls ran between them, and whatever
  \<open>remap_pfn_range\<close> returns in any of the runs. A request is admitted exactly when the
  loop stops at some index, and the loop stops at index \<open>i\<close> exactly when entry \<open>i\<close> is
  the first, in storage order, among the entries in use that passes the test: a later
  match never admits in place of an earlier one, and a match behind entries that fail
  is still found.
\<close>

theorem mmap_admission_deterministic:
  assumes "instance_ok inst"
    and "mmap_start pf2 vma2 = mmap_start pf1 vma1"
    and "mmap_end pf2 vma2 = mmap_end pf1 vma1"
  shows "((mmap_ret (fst (sunxi_gpiomem_mmap pf2 (snd (mmap_calls pf0 inst reqs)) filp2 vma2))
             = - EACCES) \<longleftrightarrow>
          (mmap_ret (fst (sunxi_gpiomem_mmap pf1 inst filp1 vma1)) = - EACCES)) \<and>
         ((mmap_ret (fst (sunxi_gpiomem_mmap pf1 inst filp1 vma1)) \<noteq> - EACCES) \<longleftrightarrow>
          (\<exists>i. gpio_area_scan inst (mmap_start pf1 vma1) (mmap_end pf1 vma1) 0 = Some i)) \<and>
         ((gpio_area_scan inst (mmap_start pf1 vma1) (mmap_end pf1 vma1) 0 = Some i) \<longleftrightarrow>
          (0 \<le> i \<and> i < gpio_area_count inst \<and>
           area_matches (gpio_regs_phys inst ! nat i)
             (mmap_start pf1 vma1) (mmap_end pf1 vma1) \<and>
           (\<forall>j. 0 \<le> j \<and> j < i \<longrightarrow>
              \<not> area_matches (gpio_regs_phys inst ! nat j)
                  (mmap_start pf1 vma1) (mmap_end pf1 vma1))))"
proof (intro conjI)
  show "(mmap_ret (fst (sunxi_gpiomem_mmap pf2 (snd (mmap_calls pf0 inst reqs)) filp2 vma2))
             = - EACCES) \<longleftrightarrow>
          (mmap_ret (fst (sunxi_gpiomem_mmap pf1 inst filp1 vma1)) = - EACCES)"
    by (simp add: mmap_calls_keep_instance mmap_ret_EACCES_iff assms(2,3))
next
  show "(mmap_ret (fst (sunxi_gpiomem_mmap pf1 inst filp1 vma1)) \<noteq> - EACCES) \<longleftrightarrow>
          (\<exists>i. gpio_area_scan inst (mmap_start pf1 vma1) (mmap_end pf1 vma1) 0 = Some i)"
    unfolding mmap_ret_EACCES_iff by auto
next
  show "(gpio_area_scan inst (mmap_start pf1 vma1) (mmap_end pf1 vma1) 0 = Some i) \<longleftrightarrow>
          (0 \<le> i \<and> i < gpio_area_count inst \<and>
           area_matches (gpio_regs_phys inst ! nat i)
             (mmap_start pf1 vma1) (mmap_end pf1 vma1) \<and>
           (\<forall>j. 0 \<le> j \<and> j < i \<longrightarrow>
              \<not> area_matches (gpio_regs_phys inst ! nat j)
                  (mmap_start pf1 vma1) (mmap_end pf1 vma1)))"
    by (rule gpio_area_scan_Some_iff)
qed

text \<open>
  C8 on two tables. Where only the second entry passes the test, the loop stops at
  index 1 and the request is admitted; it is admitted again when another caller asks
  for the same physical page from another descriptor, after a denied and an admitted
  call, on a kernel whose \<open>remap_pfn_range\<close> fails. Where both entries pass the test,
  the loop stops at index 0.
\<close>

theorem mmap_admission_deterministic_witness:
  "instance_ok second_match_instance \<and> instance_ok overlap_instance \<and>
   mmap_start exhausted_platform moved_page_vma = mmap_start scenario_platform page_vma \<and>
   mmap_end exhausted_platform moved_page_vma = mmap_end scenario_platform page_vma \<and>
   moved_page_vma \<noteq> page_vma \<and>
   gpio_area_scan second_match_instance (mmap_start scenario_platform page_vma)
       (mmap_end scenario_platform page_vma) 0 = Some 1 \<and>
   mmap_ret (fst (sunxi_gpiomem_mmap scenario_platform second_match_instance 0 page_vma))
     \<noteq> - EACCES \<and>
   mmap_ret (fst (sunxi_gpiomem_mmap exhausted_platform
       (snd (mmap_calls scenario_platform second_match_instance
               [(0, other_vma), (1, page_vma)]))
       2 moved_page_vma)) \<noteq> - EACCES \<and>
   gpio_area_scan overlap_instance (mmap_start scenario_platform page_vma)
       (mmap_end scenario_platform page_vma) 0 = Some 0 \<and>
   area_matches (gpio_regs_phys overlap_instance ! 1) (mmap_start scenario_platform page_vma)
       (mmap_end scenario_platform page_vma)"
proof -
  note ok2 = second_match_instance_ok and oko = overlap_instance_ok
  have same:
    "mmap_start exhausted_platform moved_page_vma = mmap_start scenario_platform page_vma"
    "mmap_end exhausted_platform moved_page_vma = mmap_end scenario_platform page_vma"
    by (simp_all add: moved_page_vma_start moved_page_vma_end page_vma_start page_vma_end)
  have differ: "moved_page_vma \<noteq> page_vma"
    by (simp add: moved_page_vma_def page_vma_def)
  note det2 = mmap_admission_deterministic
    [OF ok2 same, of scenario_platform "[(0, other_vma), (1, page_vma)]" 2 0 1]
  note deto = mmap_admission_deterministic
    [OF oko same, of scenario_platform "[(0, other_vma), (1, page_vma)]" 2 0 0]
  have least2: "0 \<le> (1::int) \<and> 1 < gpio_area_count second_match_instance \<and>
      area_matches (gpio_regs_phys second_match_instance ! nat 1)
        (mmap_start scenario_platform page_vma) (mmap_end scenario_platform page_vma) \<and>
      (\<forall>j. 0 \<le> j \<and> j < 1 \<longrightarrow>
         \<not> area_matches (gpio_regs_phys second_match_instance ! nat j)
             (mmap_start scenario_platform page_vma) (mmap_end scenario_platform page_vma))"
  proof (intro conjI allI impI)
    fix j :: int assume "0 \<le> j \<and> j < 1"
    then have "j = 0" by simp
    then show "\<not> area_matches (gpio_regs_phys second_match_instance ! nat j)
             (mmap_start scenario_platform page_vma) (mmap_end scenario_platform page_vma)"
      by (simp add: page_vma_start page_vma_end second_match_entries)
  qed (simp_all add: page_vma_start page_vma_end second_match_entries)
  with det2 have scan2: "gpio_area_scan second_match_instance
       (mmap_start scenario_platform page_vma) (mmap_end scenario_platform page_vma) 0
         = Some 1"
    by blast
  with det2 have adm2:
    "mmap_ret (fst (sunxi_gpiomem_mmap scenario_platform second_match_instance 0 page_vma))
       \<noteq> - EACCES"
    by blast
  with det2 have again2: "mmap_ret (fst (sunxi_gpiomem_mmap exhausted_platform
       (snd (mmap_calls scenario_platform second_match_instance
               [(0, other_vma), (1, page_vma)]))
       2 moved_page_vma)) \<noteq> - EACCES"
    by blast
  have leasto: "0 \<le> (0::int) \<and> 0 < gpio_area_count overlap_instance \<and>
      area_matches (gpio_regs_phys overlap_instance ! nat 0)
        (mmap_start scenario_platform page_vma) (mmap_end scenario_platform page_vma) \<and>
      (\<forall>j. 0 \<le> j \<and> j < 0 \<longrightarrow>
         \<not> area_matches (gpio_regs_phys overlap_instance ! nat j)
             (mmap_start scenario_platform page_vma) (mmap_end scenario_platform page_vma))"
    by (simp add: page_vma_start page_vma_end overlap_entries)
  with deto have scano: "gpio_area_scan overlap_instance
       (mmap_start scenario_platform page_vma) (mmap_end scenario_platform page_vma) 0
         = Some 0"
    by blast
  have second: "area_matches (gpio_regs_phys overlap_instance ! 1)
       (mmap_start scenario_platform page_vma) (mmap_end scenario_platform page_vma)"
    using overlap_second_matches by (simp add: page_vma_start page_vma_end)
  from ok2 oko same differ scan2 adm2 again2 scano second show ?thesis by blast
qed

subsection \<open>The denied request\<close>

text \<open>
  C9: when no region of the table matches the requested range, \<open>mmap\<close> returns
  \<open>-EACCES\<close>, the caller's descriptor is as it was (page protection and operations table
  included), nothing is forwarded to \<open>remap_pfn_range\<close>, and the instance is unchanged.
\<close>

theorem mmap_denied_leaves_vma:
  assumes "instance_ok inst"
    and "\<forall>r \<in> set (region_table inst).
           \<not> area_matches r (mmap_start pf vma) (mmap_end pf vma)"
  shows "sunxi_gpiomem_mmap pf inst filp vma =
           (\<lparr>mmap_ret = - EACCES, mmap_vma = vma, mmap_forwarded = None\<rparr>, inst)"
  using assms(2) unfolding gpio_area_scan_None_table [OF assms(1), symmetric]
  by (simp add: sunxi_gpiomem_mmap_def)

text \<open>C9 on the scenario: the request for a page without a region.\<close>

theorem mmap_denied_leaves_vma_witness:
  "instance_ok scenario_instance \<and>
   region_table scenario_instance = [\<lparr>start = 0x01C20800, end_addr = 0x01C20900\<rparr>] \<and>
   \<not> area_matches \<lparr>start = 0x01C20800, end_addr = 0x01C20900\<rparr>
       (mmap_start scenario_platform other_vma) (mmap_end scenario_platform other_vma) \<and>
   sunxi_gpiomem_mmap scenario_platform scenario_instance 0 other_vma =
     (\<lparr>mmap_ret = - EACCES, mmap_vma = other_vma, mmap_forwarded = None\<rparr>,
      scenario_instance)"
proof -
  note ok = scenario_instance_ok
  have miss: "\<not> area_matches \<lparr>start = 0x01C20800, end_addr = 0x01C20900\<rparr>
       (mmap_start scenario_platform other_vma) (mmap_end scenario_platform other_vma)"
    by (simp add: other_vma_start other_vma_end area_matches_def)
  then have none: "\<forall>r \<in> set (region_table scenario_instance).
       \<not> area_matches r (mmap_start scenario_platform other_vma)
            (mmap_end scenario_platform other_vma)"
    by (simp add: scenario_region_table)
  from mmap_denied_leaves_vma [OF ok none] ok miss scenario_region_table
  show ?thesis by blast
qed

section \<open>open and release\<close>

lemma minor_as_int: "sint (m :: 32 word) = DEVICE_MINOR \<longleftrightarrow> uint m = DEVICE_MINOR"
  by (simp add: DEVICE_MINOR_def signed_eq_0_iff unsigned_eq_0_iff)

text \<open>
  C4: \<open>open\<close> returns 0 exactly when the minor number of the inode is \<open>DEVICE_MINOR\<close>, and
  \<open>-ENXIO\<close> (not 0) otherwise; \<open>release\<close> returns the same. Both leave the instance as it
  was, and all either does to the outside is write log lines: nothing is allocated,
  registered or stored.
\<close>

theorem open_release_identity_gate:
  "call_ret (fst (sunxi_gpiomem_open inst ino filp)) =
     (if uint (iminor ino) = DEVICE_MINOR then 0 else - ENXIO) \<and>
   call_ret (fst (sunxi_gpiomem_release inst ino filp)) =
     (if uint (iminor ino) = DEVICE_MINOR then 0 else - ENXIO) \<and>
   - ENXIO \<noteq> (0::int) \<and>
   snd (sunxi_gpiomem_open inst ino filp) = inst \<and>
   snd (sunxi_gpiomem_release inst ino filp) = inst \<and>
   list_all is_log_event (call_log (fst (sunxi_gpiomem_open inst ino filp))) \<and>
   list_all is_log_event (call_log (fst (sunxi_gpiomem_release inst ino filp)))"
  by (simp add: sunxi_gpiomem_open_def sunxi_gpiomem_release_def Let_def minor_as_int
      ENXIO_def is_log_event_def)

text \<open>C4 on the minors 0 and 1.\<close>

theorem open_release_identity_gate_witness:
  "call_ret (fst (sunxi_gpiomem_open scenario_instance \<lparr>iminor = 0\<rparr> 0)) = 0 \<and>
   call_ret (fst (sunxi_gpiomem_open scenario_instance \<lparr>iminor = 1\<rparr> 0)) = - ENXIO \<and>
   call_ret (fst (sunxi_gpiomem_release scenario_instance \<lparr>iminor = 0\<rparr> 0)) = 0 \<and>
   call_ret (fst (sunxi_gpiomem_release scenario_instance \<lparr>iminor = 1\<rparr> 0)) = - ENXIO \<and>
   snd (sunxi_gpiomem_open scenario_instance \<lparr>iminor = 1\<rparr> 0) = scenario_instance"
  using open_release_identity_gate [of scenario_instance "\<lparr>iminor = 0\<rparr>" 0]
    open_release_identity_gate [of scenario_instance "\<lparr>iminor = 1\<rparr>" 0]
  by (simp add: DEVICE_MINOR_def)

section \<open>probe\<close>

subsection \<open>The loop over the resources\<close>

lemma fill_gpio_regs_frame:
  "fill_gpio_regs env inst i = Inr inst' \<Longrightarrow>
     gpio_area_count inst' = gpio_area_count inst \<and> dev inst' = dev inst \<and>
     length (gpio_regs_phys inst') = length (gpio_regs_phys inst)"
proof (induction env inst i rule: fill_gpio_regs.induct)
  case (1 env inst i)
  show ?case
  proof (cases "i < gpio_area_count inst")
    case False
    with "1.prems" show ?thesis by (simp add: fill_gpio_regs.simps [of env inst i])
  next
    case True
    with "1.prems" obtain res where res: "platform_get_resource env (nat i) = Some res"
      by (auto simp: fill_gpio_regs.simps [of env inst i] split: option.splits)
    with True "1.prems" "1.IH" [OF True res] show ?thesis
      by (simp add: fill_gpio_regs.simps [of env inst i])
  qed
qed

lemma fill_gpio_regs_entries:
  "fill_gpio_regs env inst i = Inr inst' \<Longrightarrow> 0 \<le> i \<Longrightarrow>
   gpio_area_count inst \<le> int (length (gpio_regs_phys inst)) \<Longrightarrow>
     (\<forall>k. i \<le> k \<and> k < gpio_area_count inst \<longrightarrow>
          (\<exists>res. platform_get_resource env (nat k) = Some res \<and>
                 gpio_regs_phys inst' ! nat k =
                   \<lparr>start = ucast (res_start res), end_addr = ucast (res_end res)\<rparr>)) \<and>
     (\<forall>k. 0 \<le> k \<and> k < i \<longrightarrow> gpio_regs_phys inst' ! nat k = gpio_regs_phys inst ! nat k)"
proof (induction env inst i rule: fill_gpio_regs.induct)
  case (1 env inst i)
  show ?case
  proof (cases "i < gpio_area_count inst")
    case False
    with "1.prems" show ?thesis by (auto simp: fill_gpio_regs.simps [of env inst i])
  next
    case True
    with "1.prems" obtain res where res: "platform_get_resource env (nat i) = Some res"
      by (auto simp: fill_gpio_regs.simps [of env inst i] split: option.splits)
    define inst1 where
      "inst1 = inst\<lparr>gpio_regs_phys := (gpio_regs_phys inst)
         [nat i := \<lparr>start = ucast (res_start res), end_addr = ucast (res_end res)\<rparr>]\<rparr>"
    from True res "1.prems"(1) have rest: "fill_gpio_regs env inst1 (i + 1) = Inr inst'"
      by (simp add: fill_gpio_regs.simps [of env inst i] inst1_def)
    have later:
      "(\<forall>k. i + 1 \<le> k \<and> k < gpio_area_count inst1 \<longrightarrow>
          (\<exists>res. platform_get_resource env (nat k) = Some res \<and>
                 gpio_regs_phys inst' ! nat k =
                   \<lparr>start = ucast (res_start res), end_addr = ucast (res_end res)\<rparr>)) \<and>
       (\<forall>k. 0 \<le> k \<and> k < i + 1 \<longrightarrow>
          gpio_regs_phys inst' ! nat k = gpio_regs_phys inst1 ! nat k)"
      using "1.IH" [OF True res] rest "1.prems"(2,3) by (simp add: inst1_def)
    have count: "gpio_area_count inst1 = gpio_area_count inst" by (simp add: inst1_def)
    have written: "gpio_regs_phys inst1 ! nat i =
        \<lparr>start = ucast (res_start res), end_addr = ucast (res_end res)\<rparr>"
      using True "1.prems"(2,3) by (simp add: inst1_def)
    have below: "gpio_regs_phys inst1 ! nat k = gpio_regs_phys inst ! nat k"
      if "0 \<le> k" "k < i" for k
      using that by (simp add: inst1_def)
    show ?thesis
    proof (intro conjI allI impI)
      fix k assume k: "i \<le> k \<and> k < gpio_area_count inst"
      show "\<exists>res. platform_get_resource env (nat k) = Some res \<and>
                 gpio_regs_phys inst' ! nat k =
                   \<lparr>start = ucast (res_start res), end_addr = ucast (res_end res)\<rparr>"
      proof (cases "k = i")
        case True
        with later written res "1.prems"(2) show ?thesis by simp
      next
        case False
        with k later count show ?thesis by simp
      qed
    next
      fix k assume "0 \<le> k \<and> k < i"
      with later below show "gpio_regs_phys inst' ! nat k = gpio_regs_phys inst ! nat k"
        by simp
    qed
  qed
qed

lemma fill_gpio_regs_Inl:
  "fill_gpio_regs env inst i = Inl k \<longleftrightarrow>
     i \<le> k \<and> k < gpio_area_count inst \<and> platform_get_resource env (nat k) = None \<and>
     (\<forall>j. i \<le> j \<and> j < k \<longrightarrow> platform_get_resource env (nat j) \<noteq> None)"
proof (induction env inst i rule: fill_gpio_regs.induct)
  case (1 env inst i)
  show ?case
  proof (cases "i < gpio_area_count inst")
    case False
    then show ?thesis by (auto simp: fill_gpio_regs.simps [of env inst i])
  next
    case True
    show ?thesis
    proof (cases "platform_get_resource env (nat i)")
      case None
      have "k = i"
        if "i \<le> k" "\<forall>j. i \<le> j \<and> j < k \<longrightarrow> platform_get_resource env (nat j) \<noteq> None"
        using that None by (metis order_le_less order_refl)
      with True None show ?thesis
        by (auto simp: fill_gpio_regs.simps [of env inst i])
    next
      case (Some res)
      have "(i \<le> k \<and> k < gpio_area_count inst \<and> platform_get_resource env (nat k) = None \<and>
              (\<forall>j. i \<le> j \<and> j < k \<longrightarrow> platform_get_resource env (nat j) \<noteq> None)) \<longleftrightarrow>
            (i + 1 \<le> k \<and> k < gpio_area_count inst \<and>
              platform_get_resource env (nat k) = None \<and>
              (\<forall>j. i + 1 \<le> j \<and> j < k \<longrightarrow> platform_get_resource env (nat j) \<noteq> None))"
        (is "?L \<longleftrightarrow> ?R")
      proof
        assume L: ?L
        with Some have "k \<noteq> i" by auto
        with L show ?R by auto
      next
        assume R: ?R
        have "platform_get_resource env (nat j) \<noteq> None" if "i \<le> j" "j < k" for j
        proof (cases "j = i")
          case True with Some show ?thesis by simp
        next
          case False with that R show ?thesis by simp
        qed
        with R show ?L by simp
      qed
      with True Some "1.IH" [OF True Some] show ?thesis
        by (simp add: fill_gpio_regs.simps [of env inst i])
    qed
  qed
qed

lemma first_unresolved:
  assumes "i \<le> k" and "platform_get_resource env (nat k) = None"
  shows "\<exists>m. i \<le> m \<and> m \<le> k \<and> platform_get_resource env (nat m) = None \<and>
             (\<forall>j. i \<le> j \<and> j < m \<longrightarrow> platform_get_resource env (nat j) \<noteq> None)"
  using assms
proof (induction "nat (k - i)" arbitrary: k rule: less_induct)
  case less
  show ?case
  proof (cases "\<forall>j. i \<le> j \<and> j < k \<longrightarrow> platform_get_resource env (nat j) \<noteq> None")
    case True
    with less.prems show ?thesis by blast
  next
    case False
    then obtain j where j: "i \<le> j" "j < k" "platform_get_resource env (nat j) = None"
      by blast
    then have "nat (j - i) < nat (k - i)" by simp
    from less.hyps [OF this j(1) j(3)] j(2) show ?thesis
      by (metis order_le_less order.strict_trans1)
  qed
qed

lemma fill_gpio_regs_Inr_iff:
  "(\<exists>inst'. fill_gpio_regs env inst i = Inr inst') \<longleftrightarrow>
     (\<forall>k. i \<le> k \<and> k < gpio_area_count inst \<longrightarrow> platform_get_resource env (nat k) \<noteq> None)"
proof
  assume "\<exists>inst'. fill_gpio_regs env inst i = Inr inst'"
  then obtain inst' where r: "fill_gpio_regs env inst i = Inr inst'" by blast
  show "\<forall>k. i \<le> k \<and> k < gpio_area_count inst \<longrightarrow> platform_get_resource env (nat k) \<noteq> None"
  proof (intro allI impI notI)
    fix k assume k: "i \<le> k \<and> k < gpio_area_count inst"
      and "platform_get_resource env (nat k) = None"
    with first_unresolved [of i k env] obtain m where
      "i \<le> m \<and> m < gpio_area_count inst \<and> platform_get_resource env (nat m) = None \<and>
       (\<forall>j. i \<le> j \<and> j < m \<longrightarrow> platform_get_resource env (nat j) \<noteq> None)"
      by (metis order.strict_trans1)
    then have "fill_gpio_regs env inst i = Inl m"
      unfolding fill_gpio_regs_Inl by blast
    with r show False by simp
  qed
next
  assume a: "\<forall>k. i \<le> k \<and> k < gpio_area_count inst \<longrightarrow>
                 platform_get_resource env (nat k) \<noteq> None"
  show "\<exists>inst'. fill_gpio_regs env inst i = Inr inst'"
  proof (cases "fill_gpio_regs env inst i")
    case (Inl m)
    with a show ?thesis unfolding fill_gpio_regs_Inl by blast
  next
    case (Inr inst')
    then show ?thesis by blast
  qed
qed


subsection \<open>The paths through probe\<close>

lemma sdiv4_nonneg: "0 \<le> (k::int) \<Longrightarrow> k sdiv 4 = k div 4"
  by (simp add: signed_divide_int_def sgn_if)

lemma sdiv4_neg: "(k::int) < 0 \<Longrightarrow> k sdiv 4 = - ((- k) div 4)"
  by (simp add: signed_divide_int_def sgn_if)

lemma sdiv4_values:
  "(132::int) sdiv 4 = 33" "(3::int) sdiv 4 = 0" "(128::int) sdiv 4 = 32"
  "(8::int) sdiv 4 = 2" "(12::int) sdiv 4 = 3" "(11::int) sdiv 4 = 2"
  by (simp_all add: signed_divide_int_def)

lemma failed_get_resource_Live:
  "failed_get_resource (Live inst) err tr =
     Probe_return err Freed (tr @ [Kfree, Dev_err_freed ''could not load sunxi_gpiomem''])"
  by (simp add: failed_get_resource_def failed_inst_alloc_def)

text \<open>\<open>probe\<close> once the instance is allocated and the count has passed the check.\<close>

lemma probe_valid_count:
  assumes "kzalloc_ok env"
    and "0 < of_property_count_elems_of_size env sdiv 4"
    and "of_property_count_elems_of_size env sdiv 4 \<le> 32"
  shows "sunxi_gpiomem_probe env =
     (let inst1 = zeroed_instance\<lparr>dev := pdev_dev env,
                    gpio_area_count := of_property_count_elems_of_size env sdiv 4\<rparr>;
          tr1 = [Dev_info (pdev_dev env) ''Initialised: GPIO register area is %d''
                   [of_property_count_elems_of_size env sdiv 4]]
      in case fill_gpio_regs env inst1 0 of
           Inl i \<Rightarrow>
             failed_get_resource (Live inst1) (- ENOENT)
               (tr1 @ [Dev_err (pdev_dev env) ''failed to get IO resource area %d'' [i]])
         | Inr inst2 \<Rightarrow>
             if alloc_chrdev_region env \<noteq> 0 then
               failed_alloc_chrdev (Live inst2) (alloc_chrdev_region env)
                 (tr1 @ [Alloc_chrdev_region,
                         Dev_err (dev inst2) ''unable to allocate device number'' []])
             else if cdev_add env \<noteq> 0 then
               failed_cdev_add (Live inst2) (cdev_add env)
                 (tr1 @ [Alloc_chrdev_region, Cdev_init, Cdev_add,
                         Dev_err (dev inst2) ''unable to register device'' []])
             else if class_create_IS_ERR env then
               failed_class_create (Live inst2) 1
                 (tr1 @ [Alloc_chrdev_region, Cdev_init, Cdev_add, Class_create])
             else if device_create_IS_ERR env then
               failed_device_create (Live inst2) 1
                 (tr1 @ [Alloc_chrdev_region, Cdev_init, Cdev_add, Class_create,
                         Device_create])
             else
               Probe_return 0 (Live inst2)
                 (tr1 @ [Alloc_chrdev_region, Cdev_init, Cdev_add, Class_create,
                         Device_create] @ registers_log inst2))"
  using assms by (simp add: sunxi_gpiomem_probe_def Let_def split: sum.splits)

text \<open>
  \<open>probe\<close> returns with a live instance on two paths only: the rejected count, with
  \<open>-EINVAL\<close>, and success, with 0.
\<close>

lemma probe_return_Live:
  assumes "(sunxi_gpiomem_probe env :: ('w::len) sunxi_gpiomem_instance probe_outcome)
             = Probe_return err (Live inst) tr"
  shows "gpio_area_count inst = of_property_count_elems_of_size env sdiv 4 \<and>
         dev inst = pdev_dev env \<and> length (gpio_regs_phys inst) = 32 \<and>
         (if err = 0
          then 0 < of_property_count_elems_of_size env sdiv 4 \<and>
               of_property_count_elems_of_size env sdiv 4 \<le> 32 \<and>
               fill_gpio_regs env
                 (zeroed_instance\<lparr>dev := pdev_dev env,
                    gpio_area_count := of_property_count_elems_of_size env sdiv 4\<rparr>) 0
                 = Inr inst
          else err = - EINVAL \<and>
               (of_property_count_elems_of_size env sdiv 4 \<le> 0 \<or>
                32 < of_property_count_elems_of_size env sdiv 4))"
proof (cases "kzalloc_ok env")
  case False
  with assms show ?thesis by (simp add: sunxi_gpiomem_probe_def failed_inst_alloc_def)
next
  case alloc: True
  show ?thesis
  proof (cases "0 < of_property_count_elems_of_size env sdiv 4 \<and>
      of_property_count_elems_of_size env sdiv 4 \<le> 32")
    case False
    with alloc assms show ?thesis
      by (auto simp: sunxi_gpiomem_probe_def Let_def failed_inst_alloc_def
          zeroed_instance_def EINVAL_def)
  next
    case True
    define inst1 :: "'w sunxi_gpiomem_instance" where
      "inst1 = zeroed_instance\<lparr>dev := pdev_dev env,
                 gpio_area_count := of_property_count_elems_of_size env sdiv 4\<rparr>"
    from True alloc assms have filled: "fill_gpio_regs env inst1 0 = Inr inst \<and> err = 0"
      unfolding probe_valid_count [OF alloc True [THEN conjunct1] True [THEN conjunct2]]
      by (auto simp: Let_def inst1_def failed_get_resource_Live failed_alloc_chrdev_def
          failed_cdev_add_def failed_class_create_def failed_device_create_def
          split: sum.splits if_splits)
    from fill_gpio_regs_frame [OF filled [THEN conjunct1]] True filled show ?thesis
      by (simp add: inst1_def zeroed_instance_def)
  qed
qed

text \<open>The instance that a successful \<open>probe\<close> leaves is laid out as \<open>mmap\<close> expects.\<close>

lemma probe_success_instance_ok:
  assumes "(sunxi_gpiomem_probe env :: ('w::len) sunxi_gpiomem_instance probe_outcome)
             = Probe_return 0 (Live inst) tr"
  shows "instance_ok inst \<and> 0 < gpio_area_count inst"
  using probe_return_Live [OF assms] by (simp add: instance_ok_def)

lemma probe_board_env:
  "\<exists>inst tr. (sunxi_gpiomem_probe board_env
      :: 32 sunxi_gpiomem_instance probe_outcome) = Probe_return 0 (Live inst) tr"
  by (simp add: sunxi_gpiomem_probe_def sdiv4_values board_env_def Let_def
      fill_gpio_regs.simps zeroed_instance_def)

lemma probe_board_env_11:
  "\<exists>inst tr. (sunxi_gpiomem_probe (board_env\<lparr>of_property_count_elems_of_size := 11\<rparr>)
      :: 32 sunxi_gpiomem_instance probe_outcome) = Probe_return 0 (Live inst) tr"
  by (simp add: sunxi_gpiomem_probe_def sdiv4_values board_env_def Let_def
      fill_gpio_regs.simps zeroed_instance_def)

subsection \<open>The count check\<close>

text \<open>
  C3: with the instance allocated, a region count that is 0, negative or above 32 makes
  \<open>probe\<close> return \<open>-EINVAL\<close> (not 0) after two error lines and nothing else: no resource
  is read and no device is registered. A count of exactly 32 passes the check: the next
  thing \<open>probe\<close> does is announce 32 areas, and when all 32 resources resolve and the
  registration calls succeed it returns 0 with a table of 32 regions.
\<close>

theorem probe_count_validation:
  assumes "kzalloc_ok env"
  shows "((of_property_count_elems_of_size env sdiv 4 \<le> 0 \<or>
           32 < of_property_count_elems_of_size env sdiv 4) \<longrightarrow>
            (sunxi_gpiomem_probe env :: ('w::len) sunxi_gpiomem_instance probe_outcome) =
              Probe_return (- EINVAL)
                (Live (zeroed_instance\<lparr>dev := pdev_dev env,
                   gpio_area_count := of_property_count_elems_of_size env sdiv 4\<rparr>))
                [Dev_err (pdev_dev env) ''failed to get gpio register area.'' [],
                 Dev_err (pdev_dev env) ''could not load sunxi_gpiomem'' []]) \<and>
         - EINVAL \<noteq> (0::int) \<and>
         (of_property_count_elems_of_size env sdiv 4 = 32 \<longrightarrow>
            (\<exists>tr. probe_events
                    (sunxi_gpiomem_probe env :: 'w sunxi_gpiomem_instance probe_outcome) =
                  Dev_info (pdev_dev env) ''Initialised: GPIO register area is %d'' [32]
                    # tr) \<and>
            ((\<forall>k<32. platform_get_resource env k \<noteq> None) \<and>
             alloc_chrdev_region env = 0 \<and> cdev_add env = 0 \<and>
             \<not> class_create_IS_ERR env \<and> \<not> device_create_IS_ERR env \<longrightarrow>
               (\<exists>inst tr.
                  (sunxi_gpiomem_probe env :: 'w sunxi_gpiomem_instance probe_outcome) =
                    Probe_return 0 (Live inst) tr \<and>
                  gpio_area_count inst = 32 \<and> length (region_table inst) = 32)))"
proof (intro conjI impI)
  assume "of_property_count_elems_of_size env sdiv 4 \<le> 0 \<or>
           32 < of_property_count_elems_of_size env sdiv 4"
  with assms
  show "(sunxi_gpiomem_probe env :: 'w sunxi_gpiomem_instance probe_outcome) =
              Probe_return (- EINVAL)
                (Live (zeroed_instance\<lparr>dev := pdev_dev env,
                   gpio_area_count := of_property_count_elems_of_size env sdiv 4\<rparr>))
                [Dev_err (pdev_dev env) ''failed to get gpio register area.'' [],
                 Dev_err (pdev_dev env) ''could not load sunxi_gpiomem'' []]"
    by (auto simp: sunxi_gpiomem_probe_def Let_def failed_inst_alloc_def)
next
  show "- EINVAL \<noteq> (0::int)" by (simp add: EINVAL_def)
next
  assume c: "of_property_count_elems_of_size env sdiv 4 = 32"
  then have valid: "0 < of_property_count_elems_of_size env sdiv 4"
    "of_property_count_elems_of_size env sdiv 4 \<le> 32" by simp_all
  show "\<exists>tr. probe_events
                (sunxi_gpiomem_probe env :: 'w sunxi_gpiomem_instance probe_outcome) =
              Dev_info (pdev_dev env) ''Initialised: GPIO register area is %d'' [32] # tr"
    unfolding probe_valid_count [OF assms valid]
    by (simp add: c Let_def probe_events_def failed_get_resource_Live
          failed_alloc_chrdev_def failed_cdev_add_def failed_class_create_def
          failed_device_create_def
        split: sum.splits)
next
  assume c: "of_property_count_elems_of_size env sdiv 4 = 32"
    and good: "(\<forall>k<32. platform_get_resource env k \<noteq> None) \<and>
             alloc_chrdev_region env = 0 \<and> cdev_add env = 0 \<and>
             \<not> class_create_IS_ERR env \<and> \<not> device_create_IS_ERR env"
  from c have valid: "0 < of_property_count_elems_of_size env sdiv 4"
    "of_property_count_elems_of_size env sdiv 4 \<le> 32" by simp_all
  define inst1 :: "'w sunxi_gpiomem_instance" where
    "inst1 = zeroed_instance\<lparr>dev := pdev_dev env,
               gpio_area_count := of_property_count_elems_of_size env sdiv 4\<rparr>"
  have "\<forall>k. 0 \<le> k \<and> k < gpio_area_count inst1 \<longrightarrow>
            platform_get_resource env (nat k) \<noteq> None"
  proof (intro allI impI)
    fix k :: int assume "0 \<le> k \<and> k < gpio_area_count inst1"
    then have "nat k < 32" by (auto simp: inst1_def c)
    with good show "platform_get_resource env (nat k) \<noteq> None" by blast
  qed
  then obtain inst2 where filled: "fill_gpio_regs env inst1 0 = Inr inst2"
    unfolding fill_gpio_regs_Inr_iff [symmetric] by blast
  from fill_gpio_regs_frame [OF filled] have frame: "gpio_area_count inst2 = 32"
    "length (gpio_regs_phys inst2) = 32"
    by (simp_all add: inst1_def c zeroed_instance_def)
  have "(sunxi_gpiomem_probe env :: 'w sunxi_gpiomem_instance probe_outcome) =
      Probe_return 0 (Live inst2)
        ([Dev_info (pdev_dev env) ''Initialised: GPIO register area is %d''
            [of_property_count_elems_of_size env sdiv 4]]
          @ [Alloc_chrdev_region, Cdev_init, Cdev_add, Class_create, Device_create]
          @ registers_log inst2)"
    unfolding probe_valid_count [OF assms valid]
    using filled good by (simp add: Let_def inst1_def)
  with frame show "\<exists>inst tr.
      (sunxi_gpiomem_probe env :: 'w sunxi_gpiomem_instance probe_outcome) =
        Probe_return 0 (Live inst) tr \<and>
      gpio_area_count inst = 32 \<and> length (region_table inst) = 32"
    by (simp add: region_table_def)
qed

text \<open>
  C3 on boards with 132 cells (33 regions), 3 cells (0 regions) and 128 cells
  (32 regions).
\<close>

theorem probe_count_validation_witness:
  "kzalloc_ok full_board_env \<and>
   (sunxi_gpiomem_probe (board_env\<lparr>of_property_count_elems_of_size := 132\<rparr>)
       :: 32 sunxi_gpiomem_instance probe_outcome) =
     Probe_return (- EINVAL) (Live (zeroed_instance\<lparr>dev := 7, gpio_area_count := 33\<rparr>))
       [Dev_err 7 ''failed to get gpio register area.'' [],
        Dev_err 7 ''could not load sunxi_gpiomem'' []] \<and>
   (sunxi_gpiomem_probe (board_env\<lparr>of_property_count_elems_of_size := 3\<rparr>)
       :: 32 sunxi_gpiomem_instance probe_outcome) =
     Probe_return (- EINVAL) (Live (zeroed_instance\<lparr>dev := 7, gpio_area_count := 0\<rparr>))
       [Dev_err 7 ''failed to get gpio register area.'' [],
        Dev_err 7 ''could not load sunxi_gpiomem'' []] \<and>
   (\<exists>inst tr.
      (sunxi_gpiomem_probe full_board_env :: 32 sunxi_gpiomem_instance probe_outcome) =
        Probe_return 0 (Live inst) tr \<and>
      gpio_area_count inst = 32 \<and> length (region_table inst) = 32)"
proof -
  have alloc: "kzalloc_ok (board_env\<lparr>of_property_count_elems_of_size := 132\<rparr>)"
    "kzalloc_ok (board_env\<lparr>of_property_count_elems_of_size := 3\<rparr>)"
    "kzalloc_ok full_board_env"
    by (simp_all add: board_env_def full_board_env_def)
  have over: "(sunxi_gpiomem_probe (board_env\<lparr>of_property_count_elems_of_size := 132\<rparr>)
       :: 32 sunxi_gpiomem_instance probe_outcome) =
     Probe_return (- EINVAL) (Live (zeroed_instance\<lparr>dev := 7, gpio_area_count := 33\<rparr>))
       [Dev_err 7 ''failed to get gpio register area.'' [],
        Dev_err 7 ''could not load sunxi_gpiomem'' []]"
    using probe_count_validation [OF alloc(1), where 'w = 32]
    by (simp add: sdiv4_values board_env_def)
  have zero: "(sunxi_gpiomem_probe (board_env\<lparr>of_property_count_elems_of_size := 3\<rparr>)
       :: 32 sunxi_gpiomem_instance probe_outcome) =
     Probe_return (- EINVAL) (Live (zeroed_instance\<lparr>dev := 7, gpio_area_count := 0\<rparr>))
       [Dev_err 7 ''failed to get gpio register area.'' [],
        Dev_err 7 ''could not load sunxi_gpiomem'' []]"
    using probe_count_validation [OF alloc(2), where 'w = 32]
    by (simp add: sdiv4_values board_env_def)
  have full: "\<exists>inst tr.
      (sunxi_gpiomem_probe full_board_env :: 32 sunxi_gpiomem_instance probe_outcome) =
        Probe_return 0 (Live inst) tr \<and>
      gpio_area_count inst = 32 \<and> length (region_table inst) = 32"
    using probe_count_validation [OF alloc(3), where 'w = 32]
    by (simp add: sdiv4_values full_board_env_def)
  from alloc(3) over zero full show ?thesis by blast
qed


subsection \<open>Resolving the resources\<close>

text \<open>
  C6: with the instance allocated and the count accepted, if one of the indices below
  the count has no resource, \<open>probe\<close> returns \<open>-ENOENT\<close> (not 0): it stops at the first
  such index, frees the instance and registers nothing (its last log line reads the
  device pointer out of the instance it has just freed). And whenever \<open>probe\<close> returns
  0, \<open>inst\<close> is live and entry \<open>k\<close> of its table holds the \<open>start\<close> and \<open>end\<close> of the
  resource at index \<open>k\<close>, converted to \<open>unsigned long\<close>, for every \<open>k\<close> below the count.
\<close>

theorem probe_resource_resolution:
  assumes "kzalloc_ok env"
    and "0 < of_property_count_elems_of_size env sdiv 4"
    and "of_property_count_elems_of_size env sdiv 4 \<le> 32"
  shows "((\<exists>k < nat (of_property_count_elems_of_size env sdiv 4).
              platform_get_resource env k = None) \<longrightarrow>
            (\<exists>k < nat (of_property_count_elems_of_size env sdiv 4).
               platform_get_resource env k = None \<and>
               (\<forall>j<k. platform_get_resource env j \<noteq> None) \<and>
               (sunxi_gpiomem_probe env :: ('w::len) sunxi_gpiomem_instance probe_outcome) =
                 Probe_return (- ENOENT) Freed
                   [Dev_info (pdev_dev env) ''Initialised: GPIO register area is %d''
                      [of_property_count_elems_of_size env sdiv 4],
                    Dev_err (pdev_dev env) ''failed to get IO resource area %d'' [int k],
                    Kfree,
                    Dev_err_freed ''could not load sunxi_gpiomem''])) \<and>
         - ENOENT \<noteq> (0::int) \<and>
         (\<forall>p tr. (sunxi_gpiomem_probe env :: 'w sunxi_gpiomem_instance probe_outcome) =
                   Probe_return 0 p tr \<longrightarrow>
            (\<exists>inst. p = Live inst \<and>
               gpio_area_count inst = of_property_count_elems_of_size env sdiv 4 \<and>
               length (gpio_regs_phys inst) = 32 \<and>
               (\<forall>k < nat (of_property_count_elems_of_size env sdiv 4).
                  \<exists>res. platform_get_resource env k = Some res \<and>
                        gpio_regs_phys inst ! k =
                          \<lparr>start = ucast (res_start res),
                           end_addr = ucast (res_end res)\<rparr>)))"
proof (intro conjI impI allI)
  define inst1 :: "'w sunxi_gpiomem_instance" where
    "inst1 = zeroed_instance\<lparr>dev := pdev_dev env,
               gpio_area_count := of_property_count_elems_of_size env sdiv 4\<rparr>"
  assume "\<exists>k < nat (of_property_count_elems_of_size env sdiv 4).
            platform_get_resource env k = None"
  then obtain k0 where k0: "k0 < nat (of_property_count_elems_of_size env sdiv 4)"
    "platform_get_resource env k0 = None" by blast
  have "\<not> (\<forall>k. 0 \<le> k \<and> k < gpio_area_count inst1 \<longrightarrow>
              platform_get_resource env (nat k) \<noteq> None)"
  proof
    assume all: "\<forall>k. 0 \<le> k \<and> k < gpio_area_count inst1 \<longrightarrow>
                    platform_get_resource env (nat k) \<noteq> None"
    from k0 have "0 \<le> int k0 \<and> int k0 < gpio_area_count inst1" by (simp add: inst1_def)
    with all have "platform_get_resource env (nat (int k0)) \<noteq> None" by blast
    with k0 show False by simp
  qed
  then obtain m where m: "fill_gpio_regs env inst1 0 = Inl m"
    unfolding fill_gpio_regs_Inr_iff [symmetric]
    by (cases "fill_gpio_regs env inst1 0") auto
  then have stop: "0 \<le> m" "m < gpio_area_count inst1"
    "platform_get_resource env (nat m) = None"
    "\<forall>j. 0 \<le> j \<and> j < m \<longrightarrow> platform_get_resource env (nat j) \<noteq> None"
    unfolding fill_gpio_regs_Inl by simp_all
  have below: "nat m < nat (of_property_count_elems_of_size env sdiv 4)"
    using stop(1,2) by (simp add: inst1_def)
  have first: "\<forall>j<nat m. platform_get_resource env j \<noteq> None"
  proof (intro allI impI)
    fix j assume "j < nat m"
    then have "0 \<le> int j \<and> int j < m" by simp
    with stop(4) have "platform_get_resource env (nat (int j)) \<noteq> None" by blast
    then show "platform_get_resource env j \<noteq> None" by simp
  qed
  have "(sunxi_gpiomem_probe env :: 'w sunxi_gpiomem_instance probe_outcome) =
          Probe_return (- ENOENT) Freed
            [Dev_info (pdev_dev env) ''Initialised: GPIO register area is %d''
               [of_property_count_elems_of_size env sdiv 4],
             Dev_err (pdev_dev env) ''failed to get IO resource area %d'' [int (nat m)],
             Kfree,
             Dev_err_freed ''could not load sunxi_gpiomem'']"
    unfolding probe_valid_count [OF assms]
    using m stop(1) by (simp add: Let_def inst1_def [symmetric] failed_get_resource_Live)
  with below stop(3) first
  show "\<exists>k < nat (of_property_count_elems_of_size env sdiv 4).
          platform_get_resource env k = None \<and>
          (\<forall>j<k. platform_get_resource env j \<noteq> None) \<and>
          (sunxi_gpiomem_probe env :: 'w sunxi_gpiomem_instance probe_outcome) =
            Probe_return (- ENOENT) Freed
              [Dev_info (pdev_dev env) ''Initialised: GPIO register area is %d''
                 [of_property_count_elems_of_size env sdiv 4],
               Dev_err (pdev_dev env) ''failed to get IO resource area %d'' [int k],
               Kfree,
               Dev_err_freed ''could not load sunxi_gpiomem'']"
    by blast
next
  show "- ENOENT \<noteq> (0::int)" by (simp add: ENOENT_def)
next
  fix p tr
  assume ret: "(sunxi_gpiomem_probe env :: 'w sunxi_gpiomem_instance probe_outcome) =
                 Probe_return 0 p tr"
  define inst1 :: "'w sunxi_gpiomem_instance" where
    "inst1 = zeroed_instance\<lparr>dev := pdev_dev env,
               gpio_area_count := of_property_count_elems_of_size env sdiv 4\<rparr>"
  from ret obtain inst where p: "p = Live inst"
    unfolding probe_valid_count [OF assms]
    by (auto simp: Let_def failed_get_resource_Live failed_alloc_chrdev_def
          failed_cdev_add_def failed_class_create_def failed_device_create_def ENOENT_def
        split: sum.splits if_splits)
  from probe_return_Live [OF ret [unfolded p]]
  have filled: "fill_gpio_regs env inst1 0 = Inr inst"
    and count: "gpio_area_count inst = of_property_count_elems_of_size env sdiv 4"
    and len: "length (gpio_regs_phys inst) = 32"
    by (simp_all add: inst1_def)
  have fits: "gpio_area_count inst1 \<le> int (length (gpio_regs_phys inst1))"
    using assms(3) by (simp add: inst1_def zeroed_instance_def)
  from fill_gpio_regs_entries [OF filled _ fits]
  have entries: "\<forall>k. 0 \<le> k \<and> k < gpio_area_count inst1 \<longrightarrow>
          (\<exists>res. platform_get_resource env (nat k) = Some res \<and>
                 gpio_regs_phys inst ! nat k =
                   \<lparr>start = ucast (res_start res), end_addr = ucast (res_end res)\<rparr>)"
    by simp
  have "\<exists>res. platform_get_resource env k = Some res \<and>
              gpio_regs_phys inst ! k =
                \<lparr>start = ucast (res_start res), end_addr = ucast (res_end res)\<rparr>"
    if "k < nat (of_property_count_elems_of_size env sdiv 4)" for k
  proof -
    from that have "0 \<le> int k \<and> int k < gpio_area_count inst1" by (simp add: inst1_def)
    with entries have "\<exists>res. platform_get_resource env (nat (int k)) = Some res \<and>
        gpio_regs_phys inst ! nat (int k) =
          \<lparr>start = ucast (res_start res), end_addr = ucast (res_end res)\<rparr>"
      by blast
    then show ?thesis by simp
  qed
  with p count len
  show "\<exists>inst. p = Live inst \<and>
          gpio_area_count inst = of_property_count_elems_of_size env sdiv 4 \<and>
          length (gpio_regs_phys inst) = 32 \<and>
          (\<forall>k < nat (of_property_count_elems_of_size env sdiv 4).
             \<exists>res. platform_get_resource env k = Some res \<and>
                   gpio_regs_phys inst ! k =
                     \<lparr>start = ucast (res_start res), end_addr = ucast (res_end res)\<rparr>)"
    by blast
qed

text \<open>
  C6 on the board that resolves the indices 0 and 1: with 12 cells (three regions)
  index 2 is missing and \<open>probe\<close> returns \<open>-ENOENT\<close>; with 8 cells it returns 0 and the
  table starts with the two resources.
\<close>

theorem probe_resource_resolution_witness:
  "kzalloc_ok board_env \<and>
   (sunxi_gpiomem_probe (board_env\<lparr>of_property_count_elems_of_size := 12\<rparr>)
      :: 32 sunxi_gpiomem_instance probe_outcome) =
     Probe_return (- ENOENT) Freed
       [Dev_info 7 ''Initialised: GPIO register area is %d'' [3],
        Dev_err 7 ''failed to get IO resource area %d'' [2],
        Kfree,
        Dev_err_freed ''could not load sunxi_gpiomem''] \<and>
   (\<exists>inst tr. (sunxi_gpiomem_probe board_env :: 32 sunxi_gpiomem_instance probe_outcome) =
        Probe_return 0 (Live inst) tr \<and>
      gpio_regs_phys inst ! 0 = \<lparr>start = 0x01C20800, end_addr = 0x01C20BFF\<rparr> \<and>
      gpio_regs_phys inst ! 1 = \<lparr>start = 0x01F02C00, end_addr = 0x01F02FFF\<rparr>)"
proof -
  have alloc: "kzalloc_ok board_env" by (simp add: board_env_def)
  have three: "kzalloc_ok (board_env\<lparr>of_property_count_elems_of_size := 12\<rparr>)"
    "0 < of_property_count_elems_of_size
           (board_env\<lparr>of_property_count_elems_of_size := 12\<rparr>) sdiv 4"
    "of_property_count_elems_of_size
       (board_env\<lparr>of_property_count_elems_of_size := 12\<rparr>) sdiv 4 \<le> 32"
    by (simp_all add: board_env_def sdiv4_values)
  have two: "0 < of_property_count_elems_of_size board_env sdiv 4"
    "of_property_count_elems_of_size board_env sdiv 4 \<le> 32"
    by (simp_all add: board_env_def sdiv4_values)
  have missing: "\<exists>k < nat (of_property_count_elems_of_size
        (board_env\<lparr>of_property_count_elems_of_size := 12\<rparr>) sdiv 4).
      platform_get_resource (board_env\<lparr>of_property_count_elems_of_size := 12\<rparr>) k = None"
    by (rule exI [of _ 2]) (simp add: board_env_def sdiv4_values)
  from probe_resource_resolution [OF three, where 'w = 32] missing
  obtain k where k: "k < 3"
    "platform_get_resource (board_env\<lparr>of_property_count_elems_of_size := 12\<rparr>) k = None"
    "(sunxi_gpiomem_probe (board_env\<lparr>of_property_count_elems_of_size := 12\<rparr>)
        :: 32 sunxi_gpiomem_instance probe_outcome) =
     Probe_return (- ENOENT) Freed
       [Dev_info 7 ''Initialised: GPIO register area is %d'' [3],
        Dev_err 7 ''failed to get IO resource area %d'' [int k],
        Kfree,
        Dev_err_freed ''could not load sunxi_gpiomem'']"
    by (auto simp: sdiv4_values board_env_def)
  from k(1,2) have "k = 2"
    by (auto simp: board_env_def split: if_splits)
  with k(3) have failed:
    "(sunxi_gpiomem_probe (board_env\<lparr>of_property_count_elems_of_size := 12\<rparr>)
        :: 32 sunxi_gpiomem_instance probe_outcome) =
     Probe_return (- ENOENT) Freed
       [Dev_info 7 ''Initialised: GPIO register area is %d'' [3],
        Dev_err 7 ''failed to get IO resource area %d'' [2],
        Kfree,
        Dev_err_freed ''could not load sunxi_gpiomem'']"
    by simp
  from probe_board_env obtain inst tr where
    ret: "(sunxi_gpiomem_probe board_env :: 32 sunxi_gpiomem_instance probe_outcome) =
            Probe_return 0 (Live inst) tr" by blast
  from probe_resource_resolution [OF alloc two, where 'w = 32] ret
  have entries: "\<forall>k < nat (of_property_count_elems_of_size board_env sdiv 4).
      \<exists>res. platform_get_resource board_env k = Some res \<and>
            gpio_regs_phys inst ! k =
              \<lparr>start = ucast (res_start res), end_addr = ucast (res_end res)\<rparr>"
    by blast
  have n: "nat (of_property_count_elems_of_size board_env sdiv 4) = 2"
    by (simp add: board_env_def sdiv4_values)
  from entries [unfolded n]
  have "gpio_regs_phys inst ! 0 = \<lparr>start = 0x01C20800, end_addr = 0x01C20BFF\<rparr>"
    by (auto simp: board_env_def dest!: spec [of _ 0])
  moreover from entries [unfolded n]
  have "gpio_regs_phys inst ! 1 = \<lparr>start = 0x01F02C00, end_addr = 0x01F02FFF\<rparr>"
    by (auto simp: board_env_def dest!: spec [of _ 1])
  ultimately show ?thesis using alloc failed ret by blast
qed

subsection \<open>The region count\<close>

text \<open>
  C7: whenever \<open>probe\<close> returns with its instance live, the count in the instance is the
  element count of the \<open>reg\<close> property divided by 4 with truncation towards zero: for
  a count that is not negative, the largest number whose fourfold does not exceed it,
  so that up to three trailing elements belong to no region. When \<open>probe\<close> returns 0,
  the table in use has exactly that many regions.
\<close>

theorem probe_count_truncating_division:
  assumes "(sunxi_gpiomem_probe env :: ('w::len) sunxi_gpiomem_instance probe_outcome) =
             Probe_return err (Live inst) tr"
  shows "gpio_area_count inst = of_property_count_elems_of_size env sdiv 4 \<and>
         (0 \<le> of_property_count_elems_of_size env \<longrightarrow>
            gpio_area_count inst = of_property_count_elems_of_size env div 4 \<and>
            4 * gpio_area_count inst \<le> of_property_count_elems_of_size env \<and>
            of_property_count_elems_of_size env < 4 * gpio_area_count inst + 4) \<and>
         (of_property_count_elems_of_size env < 0 \<longrightarrow>
            gpio_area_count inst = - ((- of_property_count_elems_of_size env) div 4)) \<and>
         (err = 0 \<longrightarrow>
            length (region_table inst) = nat (of_property_count_elems_of_size env div 4))"
proof -
  from probe_return_Live [OF assms]
  have count: "gpio_area_count inst = of_property_count_elems_of_size env sdiv 4"
    and len: "length (gpio_regs_phys inst) = 32"
    and valid: "err = 0 \<Longrightarrow> 0 < of_property_count_elems_of_size env sdiv 4 \<and>
               of_property_count_elems_of_size env sdiv 4 \<le> 32"
    by (simp_all split: if_splits)
  have nonneg: "gpio_area_count inst = of_property_count_elems_of_size env div 4 \<and>
            4 * gpio_area_count inst \<le> of_property_count_elems_of_size env \<and>
            of_property_count_elems_of_size env < 4 * gpio_area_count inst + 4"
    if "0 \<le> of_property_count_elems_of_size env"
    using that count by (simp add: sdiv4_nonneg) presburger
  have neg: "gpio_area_count inst = - ((- of_property_count_elems_of_size env) div 4)"
    if "of_property_count_elems_of_size env < 0"
    using that count by (simp add: sdiv4_neg)
  have table: "length (region_table inst) = nat (of_property_count_elems_of_size env div 4)"
    if "err = 0"
  proof -
    from valid [OF that] have pos: "0 < of_property_count_elems_of_size env sdiv 4"
      and le: "of_property_count_elems_of_size env sdiv 4 \<le> 32" by simp_all
    have "0 \<le> of_property_count_elems_of_size env"
    proof (rule ccontr)
      assume "\<not> 0 \<le> of_property_count_elems_of_size env"
      then have "of_property_count_elems_of_size env sdiv 4 \<le> 0"
        by (simp add: sdiv4_neg)
      with pos show False by simp
    qed
    with count le len show ?thesis
      by (simp add: region_table_def sdiv4_nonneg)
  qed
  from count nonneg neg table show ?thesis by blast
qed

text \<open>C7 on a board with 11 cells: two regions, the last three cells dropped.\<close>

theorem probe_count_truncating_division_witness:
  "\<exists>inst tr. (sunxi_gpiomem_probe (board_env\<lparr>of_property_count_elems_of_size := 11\<rparr>)
      :: 32 sunxi_gpiomem_instance probe_outcome) = Probe_return 0 (Live inst) tr \<and>
     gpio_area_count inst = 2 \<and> length (region_table inst) = 2"
proof -
  from probe_board_env_11 obtain inst tr where
    ret: "(sunxi_gpiomem_probe (board_env\<lparr>of_property_count_elems_of_size := 11\<rparr>)
      :: 32 sunxi_gpiomem_instance probe_outcome) = Probe_return 0 (Live inst) tr"
    by blast
  from probe_count_truncating_division [OF ret]
  have "gpio_area_count inst = 2 \<and> length (region_table inst) = 2"
    by (simp add: sdiv4_values)
  with ret show ?thesis by blast
qed

subsection \<open>The failed allocation\<close>

text \<open>
  C10 asks that the last \<open>dev_err\<close> of \<open>probe\<close> reads the device through a pointer that is
  not \<open>NULL\<close>. When \<open>kzalloc\<close> returns \<open>NULL\<close>, \<open>probe\<close> jumps to \<open>failed_inst_alloc\<close> with
  \<open>inst\<close> equal to \<open>NULL\<close>, and the \<open>dev_err\<close> there reads \<open>inst->dev\<close>: the function
  traps before it has logged or returned anything.
\<close>

theorem probe_alloc_failure_null_deref:
  "sunxi_gpiomem_probe (env\<lparr>kzalloc_ok := False\<rparr>) = Probe_oops []"
  by (simp add: sunxi_gpiomem_probe_def failed_inst_alloc_def)

text \<open>C10 on the board of two regions, with \<open>kzalloc\<close> failing.\<close>

theorem probe_alloc_failure_null_deref_witness:
  "(sunxi_gpiomem_probe (board_env\<lparr>kzalloc_ok := False\<rparr>)
      :: 32 sunxi_gpiomem_instance probe_outcome) = Probe_oops []"
  using probe_alloc_failure_null_deref [of board_env] by simp


end
